theory Spec2Isabelle
  imports Main "HOL-Library.Sublist"
begin

section \<open>Package dx: artifacts, manifests and policies\<close>

text \<open>
  Modelled from the spec: the declarations of the types \<open>GitEvent\<close> and \<open>CleanupEvent\<close>
  and the helpers \<open>dx.PushPtr\<close>, \<open>dx.PRPtr\<close> and \<open>dx.TagPtr\<close> are not among the sources.
  The data model of the spec gives the git events as push, pr, tag and branchDeleted, and
  the cleanup event as branchDeleted. \<open>Some Push\<close> stands for \<open>dx.PushPtr()\<close>, and so on.
\<close>

datatype GitEvent = Push | PR | Tag | BranchDeleted

datatype CleanupEvent = CleanupBranchDeleted

text \<open>
  A value of Go's \<open>interface{}\<close> as it comes out of a JSON or YAML document. The model only
  ever asks whether such a value is a string.
\<close>

datatype any = AString string | ANumber int | ABool bool | ANil
  | AList "any list" | AMap "(string \<times> any) list"

record Version =
  Version_RepositoryName :: string
  Version_SHA :: string
  Version_Created :: int
  Version_Branch :: string
  Version_Event :: GitEvent
  Version_SourceBranch :: string
  Version_TargetBranch :: string
  Version_Tag :: string
  Version_AuthorName :: string
  Version_AuthorEmail :: string
  Version_CommitterName :: string
  Version_CommitterEmail :: string
  Version_Message :: string
  Version_URL :: string

record Chart =
  Chart_Repository :: string
  Chart_Name :: string
  Chart_Version :: string

text \<open>A pointer field (\<open>*GitEvent\<close>, \<open>*Deploy\<close>, \<open>*Cleanup\<close>) is an option: \<open>None\<close> is nil.\<close>

record Deploy =
  Deploy_Tag :: string
  Deploy_Branch :: string
  Deploy_Event :: "GitEvent option"

record Cleanup =
  Cleanup_AppToCleanup :: string
  Cleanup_Event :: CleanupEvent
  Cleanup_Branch :: string

record Manifest =
  Manifest_App :: string
  Manifest_Env :: string
  Manifest_Namespace :: string
  Manifest_Deploy :: "Deploy option"
  Manifest_Cleanup :: "Cleanup option"
  Manifest_Chart :: Chart
  Manifest_Values :: "string \<rightharpoonup> any"
  Manifest_StrategicMergePatches :: string
  Manifest_Json6902Patches :: string

record Artifact =
  Artifact_ID :: string
  Artifact_Created :: int
  Artifact_Version :: Version
  Artifact_Context :: "string \<rightharpoonup> string"
  Artifact_Environments :: "Manifest list"
  Artifact_Items :: "(string \<rightharpoonup> any) list"

definition HasCleanupPolicy :: "Artifact \<Rightarrow> bool" where
  "HasCleanupPolicy a = (\<exists>m \<in> set (Artifact_Environments a). Manifest_Cleanup m \<noteq> None)"

text \<open>
  \<open>Artifact.Vars\<close>: the context entries, overlaid item by item with the string-typed
  values of each item.
\<close>

definition overlay_strings :: "(string \<rightharpoonup> any) \<Rightarrow> (string \<rightharpoonup> string) \<Rightarrow> (string \<rightharpoonup> string)" where
  "overlay_strings values vars =
     (\<lambda>k. case values k of Some (AString w) \<Rightarrow> Some w | _ \<Rightarrow> vars k)"

definition Vars :: "Artifact \<Rightarrow> (string \<rightharpoonup> string)" where
  "Vars a = fold overlay_strings (Artifact_Items a) (Artifact_Context a)"

text \<open>Zero values, the way Go initialises a struct whose fields are not given.\<close>

definition Version_zero :: Version where
  "Version_zero = \<lparr>Version_RepositoryName = [], Version_SHA = [], Version_Created = 0,
     Version_Branch = [], Version_Event = Push, Version_SourceBranch = [],
     Version_TargetBranch = [], Version_Tag = [], Version_AuthorName = [],
     Version_AuthorEmail = [], Version_CommitterName = [], Version_CommitterEmail = [],
     Version_Message = [], Version_URL = []\<rparr>"

definition Artifact_zero :: Artifact where
  "Artifact_zero = \<lparr>Artifact_ID = [], Artifact_Created = 0, Artifact_Version = Version_zero,
     Artifact_Context = Map.empty, Artifact_Environments = [], Artifact_Items = []\<rparr>"

definition Manifest_zero :: Manifest where
  "Manifest_zero = \<lparr>Manifest_App = [], Manifest_Env = [], Manifest_Namespace = [],
     Manifest_Deploy = None, Manifest_Cleanup = None,
     Manifest_Chart = \<lparr>Chart_Repository = [], Chart_Name = [], Chart_Version = []\<rparr>,
     Manifest_Values = Map.empty, Manifest_StrategicMergePatches = [],
     Manifest_Json6902Patches = []\<rparr>"


section \<open>The glob library\<close>

text \<open>
  The triggers compile their patterns with \<open>glob.MustCompile\<close> of github.com/gobwas/glob, a
  library outside the repository. The policy engine below takes the library's \<open>Compile\<close> as
  a parameter: a compiled glob is its \<open>Match\<close> method, and \<open>None\<close> is a compile error.
  \<open>MustCompile\<close> panics on a compile error.
\<close>

type_synonym Glob = "string \<Rightarrow> bool"

datatype panic = MustCompilePanic string | NilPointerDereference

definition glob_MustCompile :: "(string \<Rightarrow> Glob option) \<Rightarrow> string \<Rightarrow> panic + Glob" where
  "glob_MustCompile compile pattern =
     (case compile pattern of None \<Rightarrow> Inl (MustCompilePanic pattern) | Some g \<Rightarrow> Inr g)"

text \<open>
  Modelled from the spec: the library is not among the sources; the spec has "globs follow
  a shell-style pattern syntax supporting \<open>*\<close> and \<open>?\<close>". \<open>glob_Compile\<close> is that pattern
  language over bytes, called without separators: \<open>*\<close> matches any sequence, \<open>?\<close> any
  single character, a bracket term \<open>[abc]\<close>, \<open>[a-z]\<close> or \<open>[!a-z]\<close> one character of a class,
  and any other character itself. A bracket term that is not closed, or whose class is
  empty, is a compile error. The library's brace alternatives and backslash escapes are
  not modelled. An exclamation mark outside brackets is an ordinary character.
\<close>

datatype glob_term = Text char | Single | Any | Range bool "(char \<times> char) list"

fun class_items :: "string \<Rightarrow> (char \<times> char) list" where
  "class_items (lo # m # hi # cs) =
     (if m = CHR ''-'' then (lo, hi) # class_items cs else (lo, lo) # class_items (m # hi # cs))"
| "class_items (c # cs) = (c, c) # class_items cs"
| "class_items [] = []"

definition in_class :: "(char \<times> char) list \<Rightarrow> char \<Rightarrow> bool" where
  "in_class items c =
     (\<exists>(lo, hi) \<in> set items. (of_char lo :: nat) \<le> of_char c \<and> (of_char c :: nat) \<le> of_char hi)"

function glob_parse :: "string \<Rightarrow> glob_term list option" where
  "glob_parse [] = Some []"
| "glob_parse (c # cs) =
     (if c = CHR ''*'' then map_option (Cons Any) (glob_parse cs)
      else if c = CHR ''?'' then map_option (Cons Single) (glob_parse cs)
      else if c = CHR ''['' then
        (let body = takeWhile (\<lambda>x. x \<noteq> CHR '']'') cs;
             rest = dropWhile (\<lambda>x. x \<noteq> CHR '']'') cs;
             neg = (take 1 body = ''!'');
             items = class_items (if neg then drop 1 body else body)
         in if rest = [] \<or> items = [] then None
            else map_option (Cons (Range neg items)) (glob_parse (drop 1 rest)))
      else map_option (Cons (Text c)) (glob_parse cs))"
  by pat_completeness auto
termination
proof (relation "measure length")
  fix c :: char and cs :: string and rest :: string
  assume "rest = dropWhile (\<lambda>x. x \<noteq> CHR '']'') cs"
  then have "length (drop 1 rest) < Suc (length cs)"
    using length_dropWhile_le [of "\<lambda>x. x \<noteq> CHR '']''" cs] by simp
  then show "(drop 1 rest, c # cs) \<in> measure length" by simp
qed auto

fun glob_match :: "glob_term list \<Rightarrow> string \<Rightarrow> bool" where
  "glob_match [] s = (s = [])"
| "glob_match (Any # ts) [] = glob_match ts []"
| "glob_match (Any # ts) (x # s) = (glob_match ts (x # s) \<or> glob_match (Any # ts) s)"
| "glob_match (Single # ts) [] = False"
| "glob_match (Single # ts) (x # s) = glob_match ts s"
| "glob_match (Text c # ts) [] = False"
| "glob_match (Text c # ts) (x # s) = (x = c \<and> glob_match ts s)"
| "glob_match (Range neg items # ts) [] = False"
| "glob_match (Range neg items # ts) (x # s) = ((in_class items x \<noteq> neg) \<and> glob_match ts s)"

definition glob_Compile :: "string \<Rightarrow> Glob option" where
  "glob_Compile pattern = map_option glob_match (glob_parse pattern)"


section \<open>Policy engine\<close>

definition strings_HasPrefix :: "string \<Rightarrow> string \<Rightarrow> bool" where
  "strings_HasPrefix s prefix0 = (take (length prefix0) s = prefix0)"

text \<open>
  The tag block of \<open>deployTrigger\<close>. \<open>Inr False\<close> is the block's \<open>return false\<close>,
  \<open>Inr True\<close> falls through to the rest of the function. The local \<open>tag\<close> starts as
  the policy's Branch field and the glob is compiled from the whole Tag field, as the
  source has it.
\<close>

definition deployTrigger_tag :: "(string \<Rightarrow> Glob option) \<Rightarrow> Artifact \<Rightarrow> Deploy \<Rightarrow> panic + bool" where
  "deployTrigger_tag compile artifactToCheck deployPolicy =
     (if Deploy_Tag deployPolicy \<noteq> [] then
        (let negate = strings_HasPrefix (Deploy_Tag deployPolicy) ''!'';
             tag = (if negate then drop 1 (Deploy_Tag deployPolicy) else Deploy_Branch deployPolicy)
         in case glob_MustCompile compile (Deploy_Tag deployPolicy) of
              Inl p \<Rightarrow> Inl p
            | Inr g \<Rightarrow>
               (let exactMatch = (tag = Version_Tag (Artifact_Version artifactToCheck));
                    patternMatch = g (Version_Tag (Artifact_Version artifactToCheck));
                    match = (exactMatch \<or> patternMatch)
                in if negate \<and> match then Inr False
                   else if \<not> negate \<and> \<not> match then Inr False
                   else Inr True))
      else Inr True)"

definition deployTrigger_branch :: "(string \<Rightarrow> Glob option) \<Rightarrow> Artifact \<Rightarrow> Deploy \<Rightarrow> panic + bool" where
  "deployTrigger_branch compile artifactToCheck deployPolicy =
     (if Deploy_Branch deployPolicy \<noteq> [] then
        (let negate = strings_HasPrefix (Deploy_Branch deployPolicy) ''!'';
             branch = (if negate then drop 1 (Deploy_Branch deployPolicy) else Deploy_Branch deployPolicy)
         in case glob_MustCompile compile branch of
              Inl p \<Rightarrow> Inl p
            | Inr g \<Rightarrow>
               (let exactMatch = (branch = Version_Branch (Artifact_Version artifactToCheck));
                    patternMatch = g (Version_Branch (Artifact_Version artifactToCheck));
                    match = (exactMatch \<or> patternMatch)
                in if negate \<and> match then Inr False
                   else if \<not> negate \<and> \<not> match then Inr False
                   else Inr True))
      else Inr True)"

definition deployTrigger :: "(string \<Rightarrow> Glob option) \<Rightarrow> Artifact \<Rightarrow> Deploy option \<Rightarrow> panic + bool" where
  "deployTrigger compile artifactToCheck deployPolicy =
     (case deployPolicy of
        None \<Rightarrow> Inr False
      | Some d \<Rightarrow>
         if Deploy_Branch d = [] \<and> Deploy_Event d = None \<and> Deploy_Tag d = [] then Inr False
         else if Deploy_Branch d \<noteq> [] \<and>
                 (Deploy_Event d = None \<or> (Deploy_Event d \<noteq> Some Push \<and> Deploy_Event d \<noteq> Some PR))
              then Inr False
         else if Deploy_Tag d \<noteq> [] \<and> (Deploy_Event d = None \<or> Deploy_Event d \<noteq> Some Tag)
              then Inr False
         else (case deployTrigger_tag compile artifactToCheck d of
                 Inl p \<Rightarrow> Inl p
               | Inr False \<Rightarrow> Inr False
               | Inr True \<Rightarrow>
                  (case deployTrigger_branch compile artifactToCheck d of
                     Inl p \<Rightarrow> Inl p
                   | Inr False \<Rightarrow> Inr False
                   | Inr True \<Rightarrow>
                      (case Deploy_Event d of
                         Some e \<Rightarrow>
                           if e \<noteq> Version_Event (Artifact_Version artifactToCheck) then Inr False
                           else Inr True
                       | None \<Rightarrow> Inr True))))"

text \<open>
  \<open>cleanupTrigger\<close>. On a leading exclamation mark the source assigns the stripped policy
  branch to its parameter \<open>branch\<close>; \<open>policyBranch\<close> keeps the whole field.
\<close>

definition cleanupTrigger :: "(string \<Rightarrow> Glob option) \<Rightarrow> string \<Rightarrow> Cleanup option \<Rightarrow> panic + bool" where
  "cleanupTrigger compile branch0 cleanupPolicy =
     (case cleanupPolicy of
        None \<Rightarrow> Inr False
      | Some c \<Rightarrow>
         if Cleanup_Branch c = [] then Inr False
         else if Cleanup_AppToCleanup c = [] then Inr False
         else
          (let negate = strings_HasPrefix (Cleanup_Branch c) ''!'';
               policyBranch = Cleanup_Branch c;
               branch = (if negate then drop 1 (Cleanup_Branch c) else branch0)
           in case glob_MustCompile compile policyBranch of
                Inl p \<Rightarrow> Inl p
              | Inr g \<Rightarrow>
                 (let exactMatch = (branch = policyBranch);
                      patternMatch = g branch;
                      match = (exactMatch \<or> patternMatch)
                  in if negate \<and> \<not> match then Inr True
                     else if \<not> negate \<and> match then Inr True
                     else Inr False)))"



section \<open>Template engine: sanitizeDNSName and ResolveVars\<close>

definition strings_HasSuffix :: "string \<Rightarrow> string \<Rightarrow> bool" where
  "strings_HasSuffix s suffix0 =
     (length suffix0 \<le> length s \<and> drop (length s - length suffix0) s = suffix0)"

definition strings_TrimPrefix :: "string \<Rightarrow> string \<Rightarrow> string" where
  "strings_TrimPrefix s prefix0 =
     (if strings_HasPrefix s prefix0 then drop (length prefix0) s else s)"

definition strings_TrimSuffix :: "string \<Rightarrow> string \<Rightarrow> string" where
  "strings_TrimSuffix s suffix0 =
     (if strings_HasSuffix s suffix0 then take (length s - length suffix0) s else s)"

text \<open>The character class \<open>[0-9a-z]\<close> of the regular expression, on bytes.\<close>

definition in_0_9a_z :: "char \<Rightarrow> bool" where
  "in_0_9a_z c = ((48 \<le> (of_char c :: nat) \<and> (of_char c :: nat) \<le> 57) \<or>
                  (97 \<le> (of_char c :: nat) \<and> (of_char c :: nat) \<le> 122))"

text \<open>
  \<open>regexp.MustCompile("[^0-9a-z]+").ReplaceAllString(str, "-")\<close>: scanning from the left, a
  character of the class is kept, and at a character outside it the greedy match takes all
  the following characters outside the class and is replaced by one dash. A byte of a
  multi-byte UTF-8 sequence is never in the class, so matching bytes and matching runes
  replace the same runs.
\<close>

function ReplaceAllString_dash :: "string \<Rightarrow> string" where
  "ReplaceAllString_dash [] = []"
| "ReplaceAllString_dash (c # cs) =
     (if in_0_9a_z c then c # ReplaceAllString_dash cs
      else CHR ''-'' # ReplaceAllString_dash (dropWhile (\<lambda>x. \<not> in_0_9a_z x) cs))"
  by pat_completeness auto
termination
proof (relation "measure length")
  fix c :: char and cs :: string
  show "(dropWhile (\<lambda>x. \<not> in_0_9a_z x) cs, c # cs) \<in> measure length"
    using length_dropWhile_le [of "\<lambda>x. \<not> in_0_9a_z x" cs] by simp
qed auto

text \<open>
  \<open>sanitizeDNSName\<close>. \<open>strings.ToLower\<close> follows the Unicode tables, so it is a parameter
  here; \<open>strings_ToLower_ascii\<close> is what it does on ASCII text.
\<close>

definition sanitizeDNSName :: "(string \<Rightarrow> string) \<Rightarrow> string \<Rightarrow> string" where
  "sanitizeDNSName ToLower str0 =
     (let str1 = ToLower str0;
          str2 = ReplaceAllString_dash str1;
          str3 = (if length str2 > 63 then take 63 str2 else str2);
          str4 = strings_TrimSuffix str3 ''-'';
          str5 = strings_TrimPrefix str4 ''-''
      in str5)"

definition strings_ToLower_ascii :: "string \<Rightarrow> string" where
  "strings_ToLower_ascii s =
     map (\<lambda>c. case map_of (zip ''ABCDEFGHIJKLMNOPQRSTUVWXYZ'' ''abcdefghijklmnopqrstuvwxyz'') c of
                 Some l \<Rightarrow> l | None \<Rightarrow> c) s"

subsection \<open>The reference definition of the specification\<close>

text \<open>
  In the words of the spec: lowercase, replace every maximal run of characters outside
  \<open>[0-9a-z]\<close> with a single dash, truncate to 63 characters, remove a leading and a
  trailing dash. \<open>runs\<close> cuts a string into its maximal runs of characters that are all
  inside or all outside a class.
\<close>

fun runs :: "('a \<Rightarrow> bool) \<Rightarrow> 'a list \<Rightarrow> 'a list list" where
  "runs P [] = []"
| "runs P (x # xs) =
     (case runs P xs of
        [] \<Rightarrow> [[x]]
      | r # rs \<Rightarrow> if P x = P (hd r) then (x # r) # rs else [x] # r # rs)"

definition replace_runs_ref :: "string \<Rightarrow> string" where
  "replace_runs_ref s =
     concat (map (\<lambda>r. if in_0_9a_z (hd r) then r else ''-'') (runs in_0_9a_z s))"

definition remove_leading_dash :: "string \<Rightarrow> string" where
  "remove_leading_dash s = (case s of [] \<Rightarrow> [] | c # cs \<Rightarrow> if c = CHR ''-'' then cs else s)"

definition remove_trailing_dash :: "string \<Rightarrow> string" where
  "remove_trailing_dash s = (if s \<noteq> [] \<and> last s = CHR ''-'' then butlast s else s)"

definition sanitizeDNSName_ref :: "(string \<Rightarrow> string) \<Rightarrow> string \<Rightarrow> string" where
  "sanitizeDNSName_ref ToLower s =
     remove_trailing_dash (remove_leading_dash (take 63 (replace_runs_ref (ToLower s))))"

text \<open>
  The regular expression \<open>^([a-z0-9]([-a-z0-9]*[a-z0-9])?)?$\<close> as a predicate: the empty
  string, or a string of characters of \<open>[-a-z0-9]\<close> whose first and last characters are in
  \<open>[a-z0-9]\<close> (one character is both the first and the last).
\<close>

definition rfc1123_label :: "string \<Rightarrow> bool" where
  "rfc1123_label s =
     (s = [] \<or>
      (in_0_9a_z (hd s) \<and> list_all (\<lambda>c. in_0_9a_z c \<or> c = CHR ''-'') s \<and> in_0_9a_z (last s)))"

definition label_chars :: "string \<Rightarrow> bool" where
  "label_chars s = list_all (\<lambda>c. in_0_9a_z c \<or> c = CHR ''-'') s"

fun no_double_dash :: "string \<Rightarrow> bool" where
  "no_double_dash (a # b # cs) = (\<not> (a = CHR ''-'' \<and> b = CHR ''-'') \<and> no_double_dash (b # cs))"
| "no_double_dash [a] = True"
| "no_double_dash [] = True"


section \<open>Events, requests and the collaborators of the worker\<close>

text \<open>
  Modelled from the spec: the declarations of \<open>model.Event\<close>, of the request bodies
  \<open>dx.ReleaseRequest\<close> and \<open>dx.RollbackRequest\<close>, of \<open>dx.Release\<close> and of package
  \<open>events\<close> (\<open>DeployEvent\<close>, \<open>RollbackEvent\<close>, \<open>DeleteEvent\<close>, \<open>BranchDeletedEvent\<close>, the
  statuses \<open>Success\<close> and \<open>Failure\<close>) are not among the sources. The records below have the
  fields the worker reads and writes, with the entities of the spec's data model. A Go
  \<open>error\<close> is the text of its \<open>Error()\<close>; \<open>error option\<close> is an error that may be nil. A
  nil slice is \<open>None\<close>.
\<close>

type_synonym error = string

datatype EventType = TypeArtifact | TypeRelease | TypeRollback | TypeBranchDeleted | TypeOther string

datatype EventStatus = StatusNew | StatusProcessed | StatusError

record Event =
  Event_ID :: string
  Event_Created :: int
  Event_Type :: EventType
  Event_Blob :: string
  Event_Status :: EventStatus
  Event_StatusDesc :: string
  Event_Repository :: string
  Event_Branch :: string
  Event_Event :: string
  Event_SourceBranch :: string
  Event_TargetBranch :: string
  Event_Tag :: string
  Event_SHA :: string
  Event_ArtifactID :: string
  Event_GitopsHashes :: "string list option"

record ReleaseRequest =
  ReleaseRequest_Env :: string
  ReleaseRequest_App :: string
  ReleaseRequest_ArtifactID :: string
  ReleaseRequest_TriggeredBy :: string

record RollbackRequest =
  RollbackRequest_Env :: string
  RollbackRequest_App :: string
  RollbackRequest_TargetSHA :: string
  RollbackRequest_TriggeredBy :: string

record Release =
  Release_App :: string
  Release_Env :: string
  Release_ArtifactID :: string
  Release_Version :: Version
  Release_TriggeredBy :: string

datatype Status = Success | Failure

record BranchDeletedEvent =
  BranchDeletedEvent_Repo :: string
  BranchDeletedEvent_Branch :: string
  BranchDeletedEvent_Manifests :: "Manifest list"

text \<open>
  The manifest of a deploy event is a pointer to the manifest that the handler resolves in
  place, so the record holds the manifest as it is when the handler returns the event.
  Two pointer fields of the source are left out of the records, since nothing below reads
  through them: the artifact of a deploy event, and the branch-deleted event of a delete
  event. Both point to data that the handlers go on changing in place.
\<close>

record DeployEvent =
  DeployEvent_Manifest :: Manifest
  DeployEvent_TriggeredBy :: string
  DeployEvent_Status :: Status
  DeployEvent_StatusDesc :: string
  DeployEvent_GitopsRef :: string
  DeployEvent_GitopsRepo :: string

record RollbackEvent =
  RollbackEvent_RollbackRequest :: RollbackRequest
  RollbackEvent_Status :: Status
  RollbackEvent_StatusDesc :: string
  RollbackEvent_GitopsRefs :: "string list"
  RollbackEvent_GitopsRepo :: string

record DeleteEvent =
  DeleteEvent_Env :: string
  DeleteEvent_App :: string
  DeleteEvent_TriggeredBy :: string
  DeleteEvent_Status :: Status
  DeleteEvent_StatusDesc :: string
  DeleteEvent_GitopsRef :: string
  DeleteEvent_GitopsRepo :: string

text \<open>
  The notification messages. \<open>MessageFromRollbackEvent\<close> wraps the pointer it is given,
  which may be nil.
\<close>

datatype Message =
    MessageFromGitOpsEvent DeployEvent
  | MessageFromRollbackEvent "RollbackEvent option"
  | MessageFromDeleteEvent DeleteEvent

text \<open>The JSON value that \<open>json.Marshal\<close> writes for a \<open>[]string\<close>: a nil slice encodes as null.\<close>

datatype json = JNull | JArray "string list"

definition json_Marshal :: "string list option \<Rightarrow> json" where
  "json_Marshal hashes = (case hashes of None \<Rightarrow> JNull | Some xs \<Rightarrow> JArray xs)"

text \<open>
  Every call that leaves the worker (the store, the repository cache, git, helm, the
  template execution, the notification channel) is an action. The trace of actions so
  far is the state of the world: what a collaborator answers is a function of the trace
  and of the arguments of the call, and the worker appends the action to the trace. The
  repository handle, the path of its temporary copy and the path of the deploy key, which
  the source only hands on to these calls, are not arguments here.
\<close>

datatype action =
    ActToken
  | ActTemplateExecute string
  | ActInstanceForWrite
  | ActTmpFsCleanup
  | ActHead
  | ActLog
  | ActHasBeenReverted string
  | ActNativeRevert string
  | ActNativePush
  | ActPush
  | ActInvalidate
  | ActDelDir string
  | ActNothingToCommit
  | ActCommit string
  | ActCloneChartFromRepo
  | ActRemoveAll string
  | ActHelmTemplate
  | ActApplyPatches
  | ActCommitFilesToGit string string string string
  | ActStoreArtifact string
  | ActReposWithCleanupPolicy
  | ActSaveReposWithCleanupPolicy "string list"
  | ActUpdateEventStatus string EventStatus string json
  | ActBroadcast Message
  | ActUnprocessedEvents
  | ActEventsProcessedInc
  | ActSleep nat

type_synonym trace = "action list"

text \<open>A git reference as \<open>repo.Head()\<close> returns it: its hash and its short name.\<close>

record Reference =
  Reference_Hash :: string
  Reference_Short :: string

text \<open>
  A commit iterator: the hashes it yields, then the error it ends with, if any (the end
  of the history is not an error).
\<close>

type_synonym CommitIter = "string list \<times> error option"

record externals =
  glob_Compile_ext :: "string \<Rightarrow> Glob option"
  filepath_Join :: "string \<Rightarrow> string \<Rightarrow> string"
  tokenManager :: "(trace \<Rightarrow> string) option"
  yaml_Marshal_Manifest :: "Manifest \<Rightarrow> error + string"
  yaml_Marshal_Cleanup :: "Cleanup \<Rightarrow> error + string"
  template_Parse :: "string \<Rightarrow> error option"
  template_Execute :: "trace \<Rightarrow> string \<Rightarrow> (string \<rightharpoonup> string) \<Rightarrow> error + string"
  yaml_Unmarshal_Manifest :: "string \<Rightarrow> Manifest \<Rightarrow> error option \<times> Manifest"
  yaml_Unmarshal_Cleanup :: "string \<Rightarrow> Cleanup \<Rightarrow> error option \<times> Cleanup"
  json_Unmarshal_ReleaseRequest :: "string \<Rightarrow> ReleaseRequest option"
  json_Unmarshal_RollbackRequest :: "string \<Rightarrow> RollbackRequest option"
  json_Unmarshal_BranchDeletedEvent :: "string \<Rightarrow> BranchDeletedEvent option"
  json_Marshal_Release :: "Release \<Rightarrow> error + string"
  model_ToArtifact :: "Event \<Rightarrow> error + Artifact"
  store_UnprocessedEvents :: "trace \<Rightarrow> error + Event list"
  store_Artifact :: "trace \<Rightarrow> string \<Rightarrow> error + Event"
  store_ReposWithCleanupPolicy :: "trace \<Rightarrow> string list \<times> error option"
  store_SaveReposWithCleanupPolicy :: "trace \<Rightarrow> string list \<Rightarrow> error option"
  store_UpdateEventStatus :: "trace \<Rightarrow> string \<Rightarrow> EventStatus \<Rightarrow> string \<Rightarrow> json \<Rightarrow> error option"
  repoCache_InstanceForWrite :: "trace \<Rightarrow> error option"
  repo_Head :: "trace \<Rightarrow> Reference option"
  repo_Log :: "trace \<Rightarrow> error + CommitIter"
  nativeGit_NewCommitDirIterFromIter :: "trace \<Rightarrow> string \<Rightarrow> CommitIter \<Rightarrow> CommitIter"
  nativeGit_RollbackCommit :: "string \<Rightarrow> bool"
  nativeGit_HasBeenReverted :: "trace \<Rightarrow> string \<Rightarrow> string \<Rightarrow> string \<Rightarrow> bool"
  nativeGit_NativeRevert :: "trace \<Rightarrow> string \<Rightarrow> error option"
  nativeGit_NativePush :: "trace \<Rightarrow> string \<Rightarrow> error option"
  nativeGit_Push :: "trace \<Rightarrow> error option"
  nativeGit_DelDir :: "trace \<Rightarrow> string \<Rightarrow> error option"
  nativeGit_NothingToCommit :: "trace \<Rightarrow> bool \<times> error option"
  nativeGit_Commit :: "trace \<Rightarrow> string \<Rightarrow> string \<times> error option"
  nativeGit_CommitFilesToGit ::
    "trace \<Rightarrow> (string \<rightharpoonup> string) \<Rightarrow> string \<Rightarrow> string \<Rightarrow> string \<Rightarrow> string \<Rightarrow> error + string"
  helm_CloneChartFromRepo :: "trace \<Rightarrow> Manifest \<Rightarrow> string \<Rightarrow> error + string"
  helm_HelmTemplate :: "trace \<Rightarrow> Manifest \<Rightarrow> error + string"
  helm_SplitHelmOutput :: "(string \<rightharpoonup> string) \<Rightarrow> (string \<rightharpoonup> string)"
  kustomize_ApplyPatches :: "trace \<Rightarrow> string \<Rightarrow> string \<Rightarrow> error + string"


subsection \<open>Manifest.ResolveVars and Cleanup.ResolveVars\<close>

text \<open>
  The YAML codec and the template engine (text/template with the sprig functions, some of
  which read the clock or draw random values) are collaborators. \<open>yaml.Unmarshal\<close> fills the
  value it is given, so it takes the manifest as it is before the call. Both functions
  change their receiver in place: the second component of the result is the receiver after
  the call.
\<close>

definition Manifest_ResolveVars ::
  "externals \<Rightarrow> Manifest \<Rightarrow> (string \<rightharpoonup> string) \<Rightarrow> trace \<Rightarrow> (error option \<times> Manifest) \<times> trace" where
  "Manifest_ResolveVars x m vars tr =
     (let cleanupBkp = Manifest_Cleanup m;
          m1 = m\<lparr>Manifest_Cleanup := None\<rparr>
      in case yaml_Marshal_Manifest x m1 of
           Inl e \<Rightarrow> ((Some (''cannot marshal manifest '' @ e), m1), tr)
         | Inr manifestString \<Rightarrow>
            (case template_Parse x manifestString of
               Some e \<Rightarrow> ((Some e, m1), tr)
             | None \<Rightarrow>
                (case template_Execute x tr manifestString vars of
                   Inl e \<Rightarrow> ((Some e, m1), tr @ [ActTemplateExecute manifestString])
                 | Inr templated \<Rightarrow>
                    (case yaml_Unmarshal_Manifest x templated m1 of
                       (err, m2) \<Rightarrow>
                         ((err, m2\<lparr>Manifest_Cleanup := cleanupBkp\<rparr>),
                          tr @ [ActTemplateExecute manifestString])))))"

definition Cleanup_ResolveVars ::
  "externals \<Rightarrow> Cleanup \<Rightarrow> (string \<rightharpoonup> string) \<Rightarrow> trace \<Rightarrow> (error option \<times> Cleanup) \<times> trace" where
  "Cleanup_ResolveVars x c vars tr =
     (case yaml_Marshal_Cleanup x c of
        Inl e \<Rightarrow> ((Some (''cannot marshal cleanup policy '' @ e), c), tr)
      | Inr cleanupPolicyString \<Rightarrow>
         (case template_Parse x cleanupPolicyString of
            Some e \<Rightarrow> ((Some e, c), tr)
          | None \<Rightarrow>
             (case template_Execute x tr cleanupPolicyString vars of
                Inl e \<Rightarrow> ((Some e, c), tr @ [ActTemplateExecute cleanupPolicyString])
              | Inr templated \<Rightarrow>
                 (yaml_Unmarshal_Cleanup x templated c,
                  tr @ [ActTemplateExecute cleanupPolicyString]))))"


section \<open>The gitops worker\<close>

definition setGitopsHashOnEvent :: "Event \<Rightarrow> string \<Rightarrow> Event" where
  "setGitopsHashOnEvent event gitopsSha =
     (if gitopsSha = [] then event
      else (let hashes = (case Event_GitopsHashes event of None \<Rightarrow> [] | Some xs \<Rightarrow> xs)
            in event\<lparr>Event_GitopsHashes := Some (hashes @ [gitopsSha])\<rparr>))"

definition updateEvent :: "externals \<Rightarrow> Event \<Rightarrow> trace \<Rightarrow> error option \<times> trace" where
  "updateEvent x event tr =
     (let gitopsHashesString = json_Marshal (Event_GitopsHashes event)
      in (store_UpdateEventStatus x tr (Event_ID event) (Event_Status event)
            (Event_StatusDesc event) gitopsHashesString,
          tr @ [ActUpdateEventStatus (Event_ID event) (Event_Status event)
                  (Event_StatusDesc event) gitopsHashesString]))"

subsection \<open>Branch deletion\<close>

text \<open>
  \<open>cloneTemplateDeleteAndPush\<close>. The deferred \<open>TmpFsCleanup\<close> is the last action of every
  return. The first component of the result is the returned event pointer, \<open>None\<close> for nil.
\<close>

definition cloneTemplateDeleteAndPush ::
  "externals \<Rightarrow> Cleanup \<Rightarrow> string \<Rightarrow> string \<Rightarrow> DeleteEvent \<Rightarrow> trace
     \<Rightarrow> (DeleteEvent option \<times> error option) \<times> trace" where
  "cloneTemplateDeleteAndPush x cleanupPolicy env triggeredBy gitopsEvent tr =
     (let tr1 = tr @ [ActInstanceForWrite] in
      case repoCache_InstanceForWrite x tr of
        Some e \<Rightarrow>
          ((Some (gitopsEvent\<lparr>DeleteEvent_Status := Failure, DeleteEvent_StatusDesc := e\<rparr>), Some e),
           tr1 @ [ActTmpFsCleanup])
      | None \<Rightarrow>
         (let path = filepath_Join x env (Cleanup_AppToCleanup cleanupPolicy);
              tr2 = tr1 @ [ActDelDir path] in
          case nativeGit_DelDir x tr1 path of
            Some e \<Rightarrow>
              ((Some (gitopsEvent\<lparr>DeleteEvent_Status := Failure, DeleteEvent_StatusDesc := e\<rparr>), Some e),
               tr2 @ [ActTmpFsCleanup])
          | None \<Rightarrow>
             (let tr3 = tr2 @ [ActNothingToCommit] in
              case nativeGit_NothingToCommit x tr2 of
                (empty', Some e) \<Rightarrow>
                  ((Some (gitopsEvent\<lparr>DeleteEvent_Status := Failure, DeleteEvent_StatusDesc := e\<rparr>),
                    Some e),
                   tr3 @ [ActTmpFsCleanup])
              | (empty', None) \<Rightarrow>
                  if empty' then ((None, None), tr3 @ [ActTmpFsCleanup])
                  else
                   (let gitMessage = ''[GimletD delete] '' @ env @ ''/'' @
                          Cleanup_AppToCleanup cleanupPolicy @ '' deleted by '' @ triggeredBy;
                        tr4 = tr3 @ [ActCommit gitMessage] in
                    case nativeGit_Commit x tr3 gitMessage of
                      (sha, err) \<Rightarrow>
                        if sha \<noteq> [] then
                          (let tr5 = tr4 @ [ActPush] in
                           case nativeGit_Push x tr4 of
                             Some e \<Rightarrow>
                               ((Some (gitopsEvent\<lparr>DeleteEvent_Status := Failure,
                                         DeleteEvent_StatusDesc := e\<rparr>), Some e),
                                tr5 @ [ActTmpFsCleanup])
                           | None \<Rightarrow>
                               ((Some (gitopsEvent\<lparr>DeleteEvent_GitopsRef := sha\<rparr>), None),
                                tr5 @ [ActInvalidate, ActTmpFsCleanup]))
                        else ((Some gitopsEvent, None), tr4 @ [ActTmpFsCleanup])))))"

text \<open>
  The loop of \<open>processBranchDeletedEvent\<close> over the manifests of the event, with the
  events collected so far. \<open>Inl\<close> is a panic of \<open>cleanupTrigger\<close>.
\<close>

fun processBranchDeletedEvent_loop ::
  "externals \<Rightarrow> string \<Rightarrow> BranchDeletedEvent \<Rightarrow> Manifest list \<Rightarrow> DeleteEvent list \<Rightarrow> trace
     \<Rightarrow> (panic + (DeleteEvent list \<times> error option)) \<times> trace" where
  "processBranchDeletedEvent_loop x gitopsRepo branchDeletedEvent [] deletedEvents tr =
     (Inr (deletedEvents, None), tr)"
| "processBranchDeletedEvent_loop x gitopsRepo branchDeletedEvent (env # rest) deletedEvents tr =
     (case Manifest_Cleanup env of
        None \<Rightarrow> processBranchDeletedEvent_loop x gitopsRepo branchDeletedEvent rest deletedEvents tr
      | Some cleanup \<Rightarrow>
         (let gitopsEvent = \<lparr>DeleteEvent_Env = Manifest_Env env,
                DeleteEvent_App = Cleanup_AppToCleanup cleanup,
                DeleteEvent_TriggeredBy = ''policy'',
                DeleteEvent_Status = Success,
                DeleteEvent_StatusDesc = [],
                DeleteEvent_GitopsRef = [],
                DeleteEvent_GitopsRepo = gitopsRepo\<rparr>
          in case Cleanup_ResolveVars x cleanup
                    [''BRANCH'' \<mapsto> BranchDeletedEvent_Branch branchDeletedEvent] tr of
               ((Some e, cleanup1), tr1) \<Rightarrow>
                 (Inr ([gitopsEvent\<lparr>DeleteEvent_Status := Failure, DeleteEvent_StatusDesc := e\<rparr>],
                       Some e), tr1)
             | ((None, cleanup1), tr1) \<Rightarrow>
                 (let gitopsEvent1 = gitopsEvent\<lparr>DeleteEvent_App := Cleanup_AppToCleanup cleanup1\<rparr>
                  in case cleanupTrigger (glob_Compile_ext x)
                            (BranchDeletedEvent_Branch branchDeletedEvent) (Some cleanup1) of
                       Inl p \<Rightarrow> (Inl p, tr1)
                     | Inr False \<Rightarrow>
                         processBranchDeletedEvent_loop x gitopsRepo branchDeletedEvent rest
                           deletedEvents tr1
                     | Inr True \<Rightarrow>
                        (case cloneTemplateDeleteAndPush x cleanup1 (Manifest_Env env) ''policy''
                                gitopsEvent1 tr1 of
                           ((returned, err), tr2) \<Rightarrow>
                             (let deletedEvents1 =
                                    (case returned of
                                       Some e \<Rightarrow> deletedEvents @ [e]
                                     | None \<Rightarrow> deletedEvents)
                              in if err \<noteq> None then (Inr (deletedEvents1, err), tr2)
                                 else processBranchDeletedEvent_loop x gitopsRepo
                                        branchDeletedEvent rest deletedEvents1 tr2)))))"

definition processBranchDeletedEvent ::
  "externals \<Rightarrow> string \<Rightarrow> Event \<Rightarrow> trace
     \<Rightarrow> (panic + (DeleteEvent list \<times> error option)) \<times> trace" where
  "processBranchDeletedEvent x gitopsRepo event tr =
     (case json_Unmarshal_BranchDeletedEvent x (Event_Blob event) of
        None \<Rightarrow> (Inr ([], Some (''cannot parse delete request with id: '' @ Event_ID event)), tr)
      | Some branchDeletedEvent \<Rightarrow>
          processBranchDeletedEvent_loop x gitopsRepo branchDeletedEvent
            (BranchDeletedEvent_Manifests branchDeletedEvent) [] tr)"


subsection \<open>Rollback\<close>

text \<open>
  \<open>ForEach\<close> of a commit iterator calls the callback on each commit in turn and stops with
  the first error the callback returns; at the end of the iterator it returns the error
  the iterator ended with. The callbacks of the worker update a captured variable, which
  is the state \<open>s\<close> here.
\<close>

fun ForEach_list :: "(string \<Rightarrow> 's \<Rightarrow> error option \<times> 's) \<Rightarrow> string list \<Rightarrow> error option \<Rightarrow> 's \<Rightarrow> error option \<times> 's" where
  "ForEach_list cb [] ending s = (ending, s)"
| "ForEach_list cb (c # cs) ending s =
     (case cb c s of
        (Some e, s1) \<Rightarrow> (Some e, s1)
      | (None, s1) \<Rightarrow> ForEach_list cb cs ending s1)"

definition ForEach :: "CommitIter \<Rightarrow> (string \<Rightarrow> 's \<Rightarrow> error option \<times> 's) \<Rightarrow> 's \<Rightarrow> error option \<times> 's" where
  "ForEach iter cb s = ForEach_list cb (fst iter) (snd iter) s"

fun revertTo_loop :: "externals \<Rightarrow> string \<Rightarrow> string \<Rightarrow> string list \<Rightarrow> trace \<Rightarrow> error option \<times> trace" where
  "revertTo_loop x env app [] tr = (None, tr)"
| "revertTo_loop x env app (commit # rest) tr =
     (let hasBeenReverted = nativeGit_HasBeenReverted x tr commit env app;
          tr1 = tr @ [ActHasBeenReverted commit]
      in if \<not> hasBeenReverted then
           (case nativeGit_NativeRevert x tr1 commit of
              Some e \<Rightarrow> (Some (''could not revert: '' @ e), tr1 @ [ActNativeRevert commit])
            | None \<Rightarrow> revertTo_loop x env app rest (tr1 @ [ActNativeRevert commit]))
         else revertTo_loop x env app rest tr1)"

definition revertTo :: "externals \<Rightarrow> string \<Rightarrow> string \<Rightarrow> string \<Rightarrow> trace \<Rightarrow> error option \<times> trace" where
  "revertTo x env app sha tr =
     (let path = env @ ''/'' @ app;
          tr1 = tr @ [ActLog]
      in case repo_Log x tr of
           Inl e \<Rightarrow> (Some (''could not walk commits: '' @ e), tr1)
         | Inr commits \<Rightarrow>
            (case ForEach (nativeGit_NewCommitDirIterFromIter x tr1 path commits)
                    (\<lambda>c commitsToRevert.
                       if c = sha then (Some ''EOF'', commitsToRevert)
                       else (None, if \<not> nativeGit_RollbackCommit x c then commitsToRevert @ [c]
                                   else commitsToRevert))
                    [] of
               (err, commitsToRevert) \<Rightarrow>
                 if err \<noteq> None \<and> err \<noteq> Some ''EOF'' then (err, tr1)
                 else revertTo_loop x env app commitsToRevert tr1))"

definition shasSince :: "externals \<Rightarrow> string \<Rightarrow> trace \<Rightarrow> (string list \<times> error option) \<times> trace" where
  "shasSince x since tr =
     (let tr1 = tr @ [ActLog]
      in case repo_Log x tr of
           Inl e \<Rightarrow> (([], Some (''cannot walk commits: '' @ e)), tr1)
         | Inr commitWalker \<Rightarrow>
            (case ForEach commitWalker
                    (\<lambda>c hashes. if c = since then (Some ''FOUND'', hashes) else (None, hashes @ [c]))
                    [] of
               (err, hashes) \<Rightarrow>
                 if err \<noteq> None \<and> err \<noteq> Some ''EOF'' \<and> err \<noteq> Some ''FOUND''
                 then ((hashes, Some (''cannot walk commits: '' @ the err)), tr1)
                 else ((hashes, None), tr1)))"

text \<open>
  Modelled from the spec: the declaration of \<open>events.Status\<close> is not among the sources, so
  the value of a status field that the source leaves unset is not known; it is taken to
  be \<open>Success\<close>. No property below reads it.
\<close>

definition Status_zero :: Status where
  "Status_zero = Success"

text \<open>
  \<open>processRollbackEvent\<close>. The errors of the two \<open>repo.Head()\<close> calls are dropped by the
  source; calling a method of the nil reference they leave behind panics.
\<close>

definition processRollbackEvent ::
  "externals \<Rightarrow> string \<Rightarrow> Event \<Rightarrow> trace \<Rightarrow> (panic + (RollbackEvent option \<times> error option)) \<times> trace" where
  "processRollbackEvent x gitopsRepo event tr =
     (case json_Unmarshal_RollbackRequest x (Event_Blob event) of
        None \<Rightarrow> (Inr (None, Some (''cannot parse release request with id: '' @ Event_ID event)), tr)
      | Some rollbackRequest \<Rightarrow>
         (let rollbackEvent = \<lparr>RollbackEvent_RollbackRequest = rollbackRequest,
                RollbackEvent_Status = Status_zero,
                RollbackEvent_StatusDesc = [],
                RollbackEvent_GitopsRefs = [],
                RollbackEvent_GitopsRepo = gitopsRepo\<rparr>;
              failed = (\<lambda>e. Inr (Some (rollbackEvent\<lparr>RollbackEvent_Status := Failure,
                                          RollbackEvent_StatusDesc := e\<rparr>), Some e));
              tr1 = tr @ [ActInstanceForWrite]
          in case repoCache_InstanceForWrite x tr of
               Some e \<Rightarrow> (failed e, tr1 @ [ActTmpFsCleanup])
             | None \<Rightarrow>
                (let headSha = repo_Head x tr1;
                     tr2 = tr1 @ [ActHead]
                 in case revertTo x (RollbackRequest_Env rollbackRequest)
                           (RollbackRequest_App rollbackRequest)
                           (RollbackRequest_TargetSHA rollbackRequest) tr2 of
                      (Some e, tr3) \<Rightarrow> (failed e, tr3 @ [ActTmpFsCleanup])
                    | (None, tr3) \<Rightarrow>
                       (case headSha of
                          None \<Rightarrow> (Inl NilPointerDereference, tr3 @ [ActTmpFsCleanup])
                        | Some h \<Rightarrow>
                           (case shasSince x (Reference_Hash h) tr3 of
                              ((hashes, Some e), tr4) \<Rightarrow> (failed e, tr4 @ [ActTmpFsCleanup])
                            | ((hashes, None), tr4) \<Rightarrow>
                               (let tr5 = tr4 @ [ActHead]
                                in case repo_Head x tr4 of
                                     None \<Rightarrow> (Inl NilPointerDereference, tr5 @ [ActTmpFsCleanup])
                                   | Some head \<Rightarrow>
                                      (case nativeGit_NativePush x tr5 (Reference_Short head) of
                                         Some e \<Rightarrow>
                                           (failed e, tr5 @ [ActNativePush, ActTmpFsCleanup])
                                       | None \<Rightarrow>
                                           (Inr (Some (rollbackEvent\<lparr>RollbackEvent_GitopsRefs := hashes,
                                                         RollbackEvent_Status := Success\<rparr>), None),
                                            tr5 @ [ActNativePush, ActInvalidate,
                                                   ActTmpFsCleanup]))))))))"

subsection \<open>Template, write and push\<close>

fun strings_Contains :: "string \<Rightarrow> string \<Rightarrow> bool" where
  "strings_Contains [] substr = (substr = [])"
| "strings_Contains (c # cs) substr =
     (strings_HasPrefix (c # cs) substr \<or> strings_Contains cs substr)"

text \<open>
  \<open>gitopsTemplateAndWrite\<close>. The result carries the manifest after the call: the source
  overwrites \<open>env.Chart.Name\<close> with the directory of a cloned chart. The deferred
  \<open>os.RemoveAll\<close> of that directory is the last action of every later return.
\<close>

definition gitopsTemplateAndWrite ::
  "externals \<Rightarrow> Manifest \<Rightarrow> Release \<Rightarrow> string \<Rightarrow> trace \<Rightarrow> ((string \<times> error option) \<times> Manifest) \<times> trace" where
  "gitopsTemplateAndWrite x env release tokenForChartClone tr =
     (if strings_HasPrefix (Chart_Name (Manifest_Chart env)) ''git@'' then
        ((([], Some ''only HTTPS git repo urls supported in GimletD for git based charts''), env), tr)
      else
       (let cloned =
              (if strings_Contains (Chart_Name (Manifest_Chart env)) ''.git'' then
                 (case helm_CloneChartFromRepo x tr env tokenForChartClone of
                    Inl e \<Rightarrow> Inl (''cannot fetch chart from git '' @ e)
                  | Inr tmpChartDir \<Rightarrow>
                      Inr (env\<lparr>Manifest_Chart := (Manifest_Chart env)\<lparr>Chart_Name := tmpChartDir\<rparr>\<rparr>,
                           tr @ [ActCloneChartFromRepo], [ActRemoveAll tmpChartDir]))
               else Inr (env, tr, []))
        in case cloned of
             Inl e \<Rightarrow> ((([], Some e), env), tr @ [ActCloneChartFromRepo])
           | Inr (env1, tr1, deferred) \<Rightarrow>
              (let tr2 = tr1 @ [ActHelmTemplate]
               in case helm_HelmTemplate x tr1 env1 of
                    Inl e \<Rightarrow>
                      ((([], Some (''cannot run helm template '' @ e)), env1), tr2 @ deferred)
                  | Inr templatedManifests \<Rightarrow>
                     (let patched =
                            (if Manifest_StrategicMergePatches env1 \<noteq> [] then
                               (case kustomize_ApplyPatches x tr2
                                       (Manifest_StrategicMergePatches env1) templatedManifests of
                                  Inl e \<Rightarrow> Inl (''cannot apply Kustomize patches to chart '' @ e)
                                | Inr t \<Rightarrow> Inr (t, tr2 @ [ActApplyPatches]))
                             else Inr (templatedManifests, tr2))
                      in case patched of
                           Inl e \<Rightarrow> ((([], Some e), env1), tr2 @ [ActApplyPatches] @ deferred)
                         | Inr (templatedManifests1, tr3) \<Rightarrow>
                            (let files = helm_SplitHelmOutput x [''manifest.yaml'' \<mapsto> templatedManifests1]
                             in case json_Marshal_Release x release of
                                  Inl e \<Rightarrow>
                                    ((([], Some (''cannot marshal release meta data '' @ e)), env1),
                                     tr3 @ deferred)
                                | Inr releaseString \<Rightarrow>
                                   (let tr4 = tr3 @ [ActCommitFilesToGit (Manifest_Env env1)
                                                 (Manifest_App env1) ''automated deploy'' releaseString]
                                    in case nativeGit_CommitFilesToGit x tr3 files (Manifest_Env env1)
                                              (Manifest_App env1) ''automated deploy'' releaseString of
                                         Inl e \<Rightarrow>
                                           ((([], Some (''cannot write to git: '' @ e)), env1),
                                            tr4 @ deferred)
                                       | Inr sha \<Rightarrow> (((sha, None), env1), tr4 @ deferred)))))))"

text \<open>
  \<open>backoff.Retry\<close> with \<open>backoff.WithMaxRetries(backoff.NewExponentialBackOff(), 5)\<close>: the
  push is tried, and tried again after each failure, up to five more times. The waiting
  between the attempts is not modelled.
\<close>

fun Retry_NativePush :: "externals \<Rightarrow> string \<Rightarrow> nat \<Rightarrow> trace \<Rightarrow> error option \<times> trace" where
  "Retry_NativePush x branch 0 tr = (nativeGit_NativePush x tr branch, tr @ [ActNativePush])"
| "Retry_NativePush x branch (Suc n) tr =
     (case nativeGit_NativePush x tr branch of
        None \<Rightarrow> (None, tr @ [ActNativePush])
      | Some e \<Rightarrow> Retry_NativePush x branch n (tr @ [ActNativePush]))"

definition cloneTemplateWriteAndPush ::
  "externals \<Rightarrow> string \<Rightarrow> string \<Rightarrow> Artifact \<Rightarrow> Manifest \<Rightarrow> string \<Rightarrow> trace
     \<Rightarrow> (panic + (DeployEvent \<times> error option)) \<times> trace" where
  "cloneTemplateWriteAndPush x gitopsRepo githubChartAccessToken artifact env triggeredBy tr =
     (let gitopsEvent = \<lparr>DeployEvent_Manifest = env,
            DeployEvent_TriggeredBy = triggeredBy,
            DeployEvent_Status = Success,
            DeployEvent_StatusDesc = [],
            DeployEvent_GitopsRef = [],
            DeployEvent_GitopsRepo = gitopsRepo\<rparr>;
          failed = (\<lambda>m e. Inr (gitopsEvent\<lparr>DeployEvent_Manifest := m, DeployEvent_Status := Failure,
                                   DeployEvent_StatusDesc := e\<rparr>, Some e));
          tr1 = tr @ [ActInstanceForWrite]
      in case repoCache_InstanceForWrite x tr of
           Some e \<Rightarrow> (failed env e, tr1 @ [ActTmpFsCleanup])
         | None \<Rightarrow>
            (case Manifest_ResolveVars x env (Vars artifact) tr1 of
               ((Some e, env1), tr2) \<Rightarrow>
                 (failed env1 (''cannot resolve manifest vars '' @ e), tr2 @ [ActTmpFsCleanup])
             | ((None, env1), tr2) \<Rightarrow>
                (let releaseMeta = \<lparr>Release_App = Manifest_App env1,
                       Release_Env = Manifest_Env env1,
                       Release_ArtifactID = Artifact_ID artifact,
                       Release_Version = Artifact_Version artifact,
                       Release_TriggeredBy = triggeredBy\<rparr>
                 in case gitopsTemplateAndWrite x env1 releaseMeta githubChartAccessToken tr2 of
                      (((sha, Some e), env2), tr3) \<Rightarrow> (failed env2 e, tr3 @ [ActTmpFsCleanup])
                    | (((sha, None), env2), tr3) \<Rightarrow>
                        if sha \<noteq> [] then
                          (let tr4 = tr3 @ [ActHead]
                           in case repo_Head x tr3 of
                                None \<Rightarrow> (Inl NilPointerDereference, tr4 @ [ActTmpFsCleanup])
                              | Some head \<Rightarrow>
                                 (case Retry_NativePush x (Reference_Short head) 5 tr4 of
                                    (Some e, tr5) \<Rightarrow> (failed env2 e, tr5 @ [ActTmpFsCleanup])
                                  | (None, tr5) \<Rightarrow>
                                      (Inr (gitopsEvent\<lparr>DeployEvent_Manifest := env2,
                                              DeployEvent_GitopsRef := sha\<rparr>, None),
                                       tr5 @ [ActInvalidate, ActTmpFsCleanup])))
                        else (Inr (gitopsEvent\<lparr>DeployEvent_Manifest := env2\<rparr>, None),
                              tr3 @ [ActTmpFsCleanup]))))"


subsection \<open>Artifact and release events\<close>

definition keepReposWithCleanupPolicyUpToDate :: "externals \<Rightarrow> Artifact \<Rightarrow> trace \<Rightarrow> trace" where
  "keepReposWithCleanupPolicyUpToDate x artifact tr =
     (let reposWithCleanupPolicy = fst (store_ReposWithCleanupPolicy x tr);
          tr1 = tr @ [ActReposWithCleanupPolicy];
          repoIsNew = (Version_RepositoryName (Artifact_Version artifact) \<notin> set reposWithCleanupPolicy)
      in if repoIsNew then
           tr1 @ [ActSaveReposWithCleanupPolicy
                    (reposWithCleanupPolicy @ [Version_RepositoryName (Artifact_Version artifact)])]
         else tr1)"

text \<open>
  The loops of \<open>processArtifactEvent\<close> and \<open>processReleaseEvent\<close> over the environments
  of the artifact, with the events collected so far. An environment is a pointer to a
  manifest that \<open>ResolveVars\<close> changes in place; what the loops read of the artifact
  itself (its version, its id, its variables) is not changed by that.
\<close>

fun processArtifactEvent_loop ::
  "externals \<Rightarrow> string \<Rightarrow> string \<Rightarrow> Artifact \<Rightarrow> Manifest list \<Rightarrow> DeployEvent list \<Rightarrow> trace
     \<Rightarrow> (panic + (DeployEvent list \<times> error option)) \<times> trace" where
  "processArtifactEvent_loop x gitopsRepo token artifact [] gitopsEvents tr =
     (Inr (gitopsEvents, None), tr)"
| "processArtifactEvent_loop x gitopsRepo token artifact (env # rest) gitopsEvents tr =
     (case deployTrigger (glob_Compile_ext x) artifact (Manifest_Deploy env) of
        Inl p \<Rightarrow> (Inl p, tr)
      | Inr False \<Rightarrow> processArtifactEvent_loop x gitopsRepo token artifact rest gitopsEvents tr
      | Inr True \<Rightarrow>
         (case cloneTemplateWriteAndPush x gitopsRepo token artifact env ''policy'' tr of
            (Inl p, tr1) \<Rightarrow> (Inl p, tr1)
          | (Inr (gitopsEvent, err), tr1) \<Rightarrow>
              if err \<noteq> None then (Inr (gitopsEvents @ [gitopsEvent], err), tr1)
              else processArtifactEvent_loop x gitopsRepo token artifact rest
                     (gitopsEvents @ [gitopsEvent]) tr1))"

definition processArtifactEvent ::
  "externals \<Rightarrow> string \<Rightarrow> string \<Rightarrow> Event \<Rightarrow> trace
     \<Rightarrow> (panic + (DeployEvent list \<times> error option)) \<times> trace" where
  "processArtifactEvent x gitopsRepo token event tr =
     (case model_ToArtifact x event of
        Inl e \<Rightarrow> (Inr ([], Some (''cannot parse artifact '' @ e)), tr)
      | Inr artifact \<Rightarrow>
         (let tr1 = (if HasCleanupPolicy artifact
                     then keepReposWithCleanupPolicyUpToDate x artifact tr else tr)
          in processArtifactEvent_loop x gitopsRepo token artifact
               (Artifact_Environments artifact) [] tr1))"

fun processReleaseEvent_loop ::
  "externals \<Rightarrow> string \<Rightarrow> string \<Rightarrow> Artifact \<Rightarrow> ReleaseRequest \<Rightarrow> Manifest list
     \<Rightarrow> DeployEvent list \<Rightarrow> trace \<Rightarrow> (panic + (DeployEvent list \<times> error option)) \<times> trace" where
  "processReleaseEvent_loop x gitopsRepo token artifact releaseRequest [] gitopsEvents tr =
     (Inr (gitopsEvents, None), tr)"
| "processReleaseEvent_loop x gitopsRepo token artifact releaseRequest (env # rest) gitopsEvents tr =
     (if Manifest_Env env \<noteq> ReleaseRequest_Env releaseRequest then
        processReleaseEvent_loop x gitopsRepo token artifact releaseRequest rest gitopsEvents tr
      else
       (case Manifest_ResolveVars x env (Vars artifact) tr of
          ((discarded, env1), tr1) \<Rightarrow>
            if ReleaseRequest_App releaseRequest \<noteq> [] \<and>
               Manifest_App env1 \<noteq> ReleaseRequest_App releaseRequest
            then processReleaseEvent_loop x gitopsRepo token artifact releaseRequest rest
                   gitopsEvents tr1
            else
             (case cloneTemplateWriteAndPush x gitopsRepo token artifact env1
                     (ReleaseRequest_TriggeredBy releaseRequest) tr1 of
                (Inl p, tr2) \<Rightarrow> (Inl p, tr2)
              | (Inr (gitopsEvent, err), tr2) \<Rightarrow>
                  if err \<noteq> None then (Inr (gitopsEvents @ [gitopsEvent], err), tr2)
                  else processReleaseEvent_loop x gitopsRepo token artifact releaseRequest rest
                         (gitopsEvents @ [gitopsEvent]) tr2)))"

definition processReleaseEvent ::
  "externals \<Rightarrow> string \<Rightarrow> string \<Rightarrow> Event \<Rightarrow> trace
     \<Rightarrow> (panic + (DeployEvent list \<times> error option)) \<times> trace" where
  "processReleaseEvent x gitopsRepo token event tr =
     (case json_Unmarshal_ReleaseRequest x (Event_Blob event) of
        None \<Rightarrow> (Inr ([], Some (''cannot parse release request with id: '' @ Event_ID event)), tr)
      | Some releaseRequest \<Rightarrow>
         (let tr1 = tr @ [ActStoreArtifact (ReleaseRequest_ArtifactID releaseRequest)]
          in case store_Artifact x tr (ReleaseRequest_ArtifactID releaseRequest) of
               Inl e \<Rightarrow>
                 (Inr ([], Some (''cannot find artifact with id: '' @ Event_ArtifactID event)), tr1)
             | Inr artifactEvent \<Rightarrow>
                (case model_ToArtifact x artifactEvent of
                   Inl e \<Rightarrow> (Inr ([], Some (''cannot parse artifact '' @ e)), tr1)
                 | Inr artifact \<Rightarrow>
                     processReleaseEvent_loop x gitopsRepo token artifact releaseRequest
                       (Artifact_Environments artifact) [] tr1)))"

subsection \<open>processEvent and the worker loop\<close>

text \<open>
  The tail of \<open>processEvent\<close> after the switch: the notifications of the gitops events,
  their hashes on the event, and the terminal status. A failure of \<open>updateEvent\<close> is only
  logged.
\<close>

definition processEvent_store ::
  "externals \<Rightarrow> Event \<Rightarrow> DeployEvent list \<Rightarrow> error option \<Rightarrow> trace \<Rightarrow> Event \<times> trace" where
  "processEvent_store x event gitopsEvents err tr =
     (let tr1 = tr @ map (\<lambda>gitopsEvent. ActBroadcast (MessageFromGitOpsEvent gitopsEvent)) gitopsEvents;
          event1 = fold (\<lambda>gitopsEvent ev. setGitopsHashOnEvent ev (DeployEvent_GitopsRef gitopsEvent))
                     gitopsEvents event;
          event2 = (case err of
                      Some e \<Rightarrow> event1\<lparr>Event_Status := StatusError, Event_StatusDesc := e\<rparr>
                    | None \<Rightarrow> event1\<lparr>Event_Status := StatusProcessed\<rparr>)
      in (event2, snd (updateEvent x event2 tr1)))"

definition processEvent ::
  "externals \<Rightarrow> string \<Rightarrow> Event \<Rightarrow> trace \<Rightarrow> (panic + Event) \<times> trace" where
  "processEvent x gitopsRepo event tr =
     (let (token, tr0) = (case tokenManager x of
                            None \<Rightarrow> ([], tr)
                          | Some manager \<Rightarrow> (manager tr, tr @ [ActToken]))
      in case Event_Type event of
           TypeArtifact \<Rightarrow>
             (case processArtifactEvent x gitopsRepo token event tr0 of
                (Inl p, tr1) \<Rightarrow> (Inl p, tr1)
              | (Inr (gitopsEvents, err), tr1) \<Rightarrow>
                  (case processEvent_store x event gitopsEvents err tr1 of
                     (event1, tr2) \<Rightarrow> (Inr event1, tr2)))
         | TypeRelease \<Rightarrow>
             (case processReleaseEvent x gitopsRepo token event tr0 of
                (Inl p, tr1) \<Rightarrow> (Inl p, tr1)
              | (Inr (gitopsEvents, err), tr1) \<Rightarrow>
                  (case processEvent_store x event gitopsEvents err tr1 of
                     (event1, tr2) \<Rightarrow> (Inr event1, tr2)))
         | TypeRollback \<Rightarrow>
             (case processRollbackEvent x gitopsRepo event tr0 of
                (Inl p, tr1) \<Rightarrow> (Inl p, tr1)
              | (Inr (rollbackEvent, err), tr1) \<Rightarrow>
                 (let tr2 = tr1 @ [ActBroadcast (MessageFromRollbackEvent rollbackEvent)]
                  in case rollbackEvent of
                       None \<Rightarrow> (Inl NilPointerDereference, tr2)
                     | Some r \<Rightarrow>
                        (case processEvent_store x
                                (fold (\<lambda>sha ev. setGitopsHashOnEvent ev sha)
                                   (RollbackEvent_GitopsRefs r) event)
                                [] err tr2 of
                           (event1, tr3) \<Rightarrow> (Inr event1, tr3))))
         | TypeBranchDeleted \<Rightarrow>
             (case processBranchDeletedEvent x gitopsRepo event tr0 of
                (Inl p, tr1) \<Rightarrow> (Inl p, tr1)
              | (Inr (deleteEvents, err), tr1) \<Rightarrow>
                 (case processEvent_store x
                         (fold (\<lambda>deleteEvent ev.
                                  setGitopsHashOnEvent ev (DeleteEvent_GitopsRef deleteEvent))
                            deleteEvents event)
                         [] err
                         (tr1 @ map (\<lambda>deleteEvent. ActBroadcast (MessageFromDeleteEvent deleteEvent))
                                  deleteEvents) of
                    (event1, tr2) \<Rightarrow> (Inr event1, tr2)))
         | TypeOther t \<Rightarrow>
             (case processEvent_store x event [] None tr0 of
                (event1, tr1) \<Rightarrow> (Inr event1, tr1)))"

text \<open>
  One pass of the loop of \<open>GitopsWorker.Run\<close>. Nothing in the worker recovers from a
  panic: a panic of \<open>processEvent\<close> ends the pass, and with it the goroutine.
\<close>

fun Run_events :: "externals \<Rightarrow> string \<Rightarrow> Event list \<Rightarrow> trace \<Rightarrow> panic option \<times> trace" where
  "Run_events x gitopsRepo [] tr = (None, tr)"
| "Run_events x gitopsRepo (event # rest) tr =
     (case processEvent x gitopsRepo event (tr @ [ActEventsProcessedInc]) of
        (Inl p, tr1) \<Rightarrow> (Some p, tr1)
      | (Inr event1, tr1) \<Rightarrow> Run_events x gitopsRepo rest tr1)"

definition Run_pass :: "externals \<Rightarrow> string \<Rightarrow> trace \<Rightarrow> panic option \<times> trace" where
  "Run_pass x gitopsRepo tr =
     (case store_UnprocessedEvents x tr of
        Inl e \<Rightarrow> (None, tr @ [ActUnprocessedEvents, ActSleep 1000])
      | Inr events \<Rightarrow>
         (case Run_events x gitopsRepo events (tr @ [ActUnprocessedEvents]) of
            (Some p, tr1) \<Rightarrow> (Some p, tr1)
          | (None, tr1) \<Rightarrow> (None, tr1 @ [ActSleep 100])))"


text \<open>The trace after \<open>processEvent\<close> has asked the token manager, if there is one.\<close>

definition trace_after_token :: "externals \<Rightarrow> trace \<Rightarrow> trace" where
  "trace_after_token x tr = (case tokenManager x of None \<Rightarrow> tr | Some manager \<Rightarrow> tr @ [ActToken])"


section \<open>A concrete environment\<close>

text \<open>
  An environment for evaluating the worker on concrete events. Its YAML codec writes and
  reads only the application name, its template engine rejects a text with an opening
  \<open>{{\<close> and no closing \<open>}}\<close> and replaces the action \<open>{{ .APP }}\<close> by the variable APP, its
  JSON decoders reject every blob, its store is empty, and its git operations succeed on a
  repository in which there is never anything to commit. The theorems about every
  environment do not use it; the evaluations below override single collaborators.
\<close>

definition fixture :: externals where
  "fixture = \<lparr>
     glob_Compile_ext = glob_Compile,
     filepath_Join = (\<lambda>a b. a @ ''/'' @ b),
     tokenManager = None,
     yaml_Marshal_Manifest = (\<lambda>m. Inr (Manifest_App m)),
     yaml_Marshal_Cleanup = (\<lambda>c. Inr (Cleanup_AppToCleanup c)),
     template_Parse = (\<lambda>t. if strings_Contains t ''{{'' \<and> \<not> strings_Contains t ''}}''
                             then Some ''template: unclosed action'' else None),
     template_Execute = (\<lambda>tr t vars. Inr (if t = ''{{ .APP }}''
                             then (case vars ''APP'' of Some v \<Rightarrow> v | None \<Rightarrow> ''<no value>'')
                             else t)),
     yaml_Unmarshal_Manifest = (\<lambda>t m. (None, m\<lparr>Manifest_App := t\<rparr>)),
     yaml_Unmarshal_Cleanup = (\<lambda>t c. (None, c\<lparr>Cleanup_AppToCleanup := t\<rparr>)),
     json_Unmarshal_ReleaseRequest = (\<lambda>blob. None),
     json_Unmarshal_RollbackRequest = (\<lambda>blob. None),
     json_Unmarshal_BranchDeletedEvent = (\<lambda>blob. None),
     json_Marshal_Release = (\<lambda>r. Inr ''{}''),
     model_ToArtifact = (\<lambda>e. Inl ''unexpected end of JSON input''),
     store_UnprocessedEvents = (\<lambda>tr. Inr []),
     store_Artifact = (\<lambda>tr id. Inl ''sql: no rows in result set''),
     store_ReposWithCleanupPolicy = (\<lambda>tr. ([], None)),
     store_SaveReposWithCleanupPolicy = (\<lambda>tr repos. None),
     store_UpdateEventStatus = (\<lambda>tr id status desc hashes. None),
     repoCache_InstanceForWrite = (\<lambda>tr. None),
     repo_Head = (\<lambda>tr. Some \<lparr>Reference_Hash = ''h0'', Reference_Short = ''main''\<rparr>),
     repo_Log = (\<lambda>tr. Inr ([], None)),
     nativeGit_NewCommitDirIterFromIter = (\<lambda>tr path iter. iter),
     nativeGit_RollbackCommit = (\<lambda>c. False),
     nativeGit_HasBeenReverted = (\<lambda>tr c env app. False),
     nativeGit_NativeRevert = (\<lambda>tr c. None),
     nativeGit_NativePush = (\<lambda>tr branch. None),
     nativeGit_Push = (\<lambda>tr. None),
     nativeGit_DelDir = (\<lambda>tr path. None),
     nativeGit_NothingToCommit = (\<lambda>tr. (True, None)),
     nativeGit_Commit = (\<lambda>tr message. ([], None)),
     nativeGit_CommitFilesToGit = (\<lambda>tr files env app message release. Inr []),
     helm_CloneChartFromRepo = (\<lambda>tr m token. Inr ''/tmp/chart''),
     helm_HelmTemplate = (\<lambda>tr m. Inr []),
     helm_SplitHelmOutput = (\<lambda>files. files),
     kustomize_ApplyPatches = (\<lambda>tr patches manifests. Inr manifests)\<rparr>"

definition Event_zero :: Event where
  "Event_zero = \<lparr>Event_ID = [], Event_Created = 0, Event_Type = TypeOther [], Event_Blob = [],
     Event_Status = StatusNew, Event_StatusDesc = [], Event_Repository = [], Event_Branch = [],
     Event_Event = [], Event_SourceBranch = [], Event_TargetBranch = [], Event_Tag = [],
     Event_SHA = [], Event_ArtifactID = [], Event_GitopsHashes = None\<rparr>"


text \<open>The messages of the commits made in a trace, in order.\<close>

definition commit_messages :: "trace \<Rightarrow> string list" where
  "commit_messages tr = concat (map (\<lambda>a. case a of ActCommit m \<Rightarrow> [m] | _ \<Rightarrow> []) tr)"

text \<open>The delete events broadcast in a trace, in order.\<close>

definition delete_events_broadcast :: "trace \<Rightarrow> DeleteEvent list" where
  "delete_events_broadcast tr =
     concat (map (\<lambda>a. case a of ActBroadcast (MessageFromDeleteEvent d) \<Rightarrow> [d] | _ \<Rightarrow> []) tr)"

text \<open>The template texts executed in a trace, in order.\<close>

definition template_executions :: "trace \<Rightarrow> string list" where
  "template_executions tr = concat (map (\<lambda>a. case a of ActTemplateExecute t \<Rightarrow> [t] | _ \<Rightarrow> []) tr)"

text \<open>
  What the loop of \<open>processBranchDeletedEvent\<close> returns when no deletion changes the
  working tree: the events it started with and no error, or an error with failure events
  that carry no gitops reference.
\<close>

definition quiet_result ::
  "DeleteEvent list \<Rightarrow> (panic + (DeleteEvent list \<times> error option)) \<Rightarrow> bool" where
  "quiet_result acc r =
     (case r of
        Inl p \<Rightarrow> True
      | Inr (evs, err) \<Rightarrow>
          (err = None \<and> evs = acc) \<or>
          (err \<noteq> None \<and> list_all (\<lambda>ev. DeleteEvent_GitopsRef ev = [] \<and> DeleteEvent_Status ev = Failure) evs))"

text \<open>
  A branch-deleted event for the branch feature-x, with one manifest whose cleanup policy
  covers the branches \<open>feature-*\<close>, and a repository in which the deletion changes
  something and the commit succeeds.
\<close>

definition cleanup_example :: Cleanup where
  "cleanup_example = \<lparr>Cleanup_AppToCleanup = ''my-app-feature-x'',
     Cleanup_Event = CleanupBranchDeleted, Cleanup_Branch = ''feature-*''\<rparr>"

definition manifest_cleanup_example :: Manifest where
  "manifest_cleanup_example = Manifest_zero\<lparr>Manifest_App := ''my-app-feature-x'',
     Manifest_Env := ''staging'', Manifest_Cleanup := Some cleanup_example\<rparr>"

definition branch_deleted_example :: BranchDeletedEvent where
  "branch_deleted_example = \<lparr>BranchDeletedEvent_Repo = ''owner/repo'',
     BranchDeletedEvent_Branch = ''feature-x'',
     BranchDeletedEvent_Manifests = [manifest_cleanup_example]\<rparr>"

definition fixture_branch_deleted :: externals where
  "fixture_branch_deleted =
     fixture\<lparr>json_Unmarshal_BranchDeletedEvent := (\<lambda>blob. Some branch_deleted_example)\<rparr>"

definition fixture_tree_changed :: externals where
  "fixture_tree_changed =
     fixture\<lparr>nativeGit_NothingToCommit := (\<lambda>tr. (False, None)),
             nativeGit_Commit := (\<lambda>tr message. (''c0ffee'', None))\<rparr>"

text \<open>An artifact event whose only environment has the deploy branch pattern \<open>[\<close>.\<close>

definition artifact_invalid_glob :: Artifact where
  "artifact_invalid_glob = Artifact_zero\<lparr>Artifact_Environments :=
     [Manifest_zero\<lparr>Manifest_Deploy :=
        Some \<lparr>Deploy_Tag = [], Deploy_Branch = ''['', Deploy_Event = Some Push\<rparr>\<rparr>]\<rparr>"

definition event_artifact_example :: Event where
  "event_artifact_example = Event_zero\<lparr>Event_ID := ''e1'', Event_Type := TypeArtifact\<rparr>"

definition fixture_invalid_glob :: externals where
  "fixture_invalid_glob =
     fixture\<lparr>model_ToArtifact := (\<lambda>e. Inr artifact_invalid_glob),
             store_UnprocessedEvents := (\<lambda>tr. Inr [event_artifact_example])\<rparr>"

text \<open>A branch-deleted event whose only manifest has the cleanup branch pattern \<open>[\<close>.\<close>

definition cleanup_invalid_glob :: Cleanup where
  "cleanup_invalid_glob = \<lparr>Cleanup_AppToCleanup = ''my-app'',
     Cleanup_Event = CleanupBranchDeleted, Cleanup_Branch = ''[''\<rparr>"

definition event_branch_deleted_example :: Event where
  "event_branch_deleted_example = Event_zero\<lparr>Event_ID := ''e2'', Event_Type := TypeBranchDeleted\<rparr>"

definition fixture_cleanup_invalid_glob :: externals where
  "fixture_cleanup_invalid_glob =
     fixture\<lparr>json_Unmarshal_BranchDeletedEvent := (\<lambda>blob.
       Some \<lparr>BranchDeletedEvent_Repo = ''owner/repo'', BranchDeletedEvent_Branch = ''feature-x'',
              BranchDeletedEvent_Manifests =
                [Manifest_zero\<lparr>Manifest_Env := ''staging'',
                   Manifest_Cleanup := Some cleanup_invalid_glob\<rparr>]\<rparr>)\<rparr>"











text \<open>
  A branch-deleted event for the branch feature-x with three manifests: two with the
  cleanup policy above, in two environments, and between them one without a policy.
\<close>

definition branch_deleted_many :: BranchDeletedEvent where
  "branch_deleted_many = \<lparr>BranchDeletedEvent_Repo = ''owner/repo'',
     BranchDeletedEvent_Branch = ''feature-x'',
     BranchDeletedEvent_Manifests =
       [manifest_cleanup_example, Manifest_zero\<lparr>Manifest_Env := ''staging''\<rparr>,
        manifest_cleanup_example\<lparr>Manifest_Env := ''preview''\<rparr>]\<rparr>"

definition fixture_branch_deleted_many :: externals where
  "fixture_branch_deleted_many =
     fixture\<lparr>json_Unmarshal_BranchDeletedEvent := (\<lambda>blob. Some branch_deleted_many)\<rparr>"


section \<open>Properties of the policy engine\<close>

lemmas trigger_defs = deployTrigger_def deployTrigger_tag_def deployTrigger_branch_def
  cleanupTrigger_def glob_MustCompile_def glob_Compile_def strings_HasPrefix_def

text \<open>
  With a negated policy branch the parameter \<open>branch\<close> of \<open>cleanupTrigger\<close> is overwritten
  before it is read: the result does not depend on the branch that was deleted.
\<close>

lemma cleanupTrigger_negated_ignores_branch:
  "strings_HasPrefix (Cleanup_Branch c) ''!'' \<Longrightarrow>
   cleanupTrigger compile b (Some c) = cleanupTrigger compile b' (Some c)"
  by (simp add: cleanupTrigger_def)

text \<open>
  What the source computes for a policy with both fields set whose pattern compiles to
  \<open>g\<close>: without negation, whether the deleted branch equals or matches the pattern; with
  negation, whether the policy branch without its exclamation mark fails to match the
  glob of the whole policy branch.
\<close>

lemma cleanupTrigger_computes:
  assumes "Cleanup_Branch c \<noteq> []" and "Cleanup_AppToCleanup c \<noteq> []"
    and "compile (Cleanup_Branch c) = Some g"
  shows "cleanupTrigger compile b (Some c) =
           (if strings_HasPrefix (Cleanup_Branch c) ''!''
            then Inr (\<not> g (drop 1 (Cleanup_Branch c)))
            else Inr (b = Cleanup_Branch c \<or> g b))"
proof -
  have "drop 1 (Cleanup_Branch c) \<noteq> Cleanup_Branch c"
    using assms(1) by (cases "Cleanup_Branch c") (auto dest: arg_cong [where f = length])
  with assms show ?thesis
    by (simp add: cleanupTrigger_def glob_MustCompile_def Let_def)
qed

text \<open>
  Claim C1: \<open>cleanupTrigger(b, c)\<close> is true iff \<open>c\<close> is non-null, its branch and app are set and
  \<open>b\<close> matches the glob of \<open>c.branch\<close> with the leading exclamation mark stripped and the
  match negated; with the policy branch \<open>!main\<close> it is false for the branch main and true
  for dev. The source does otherwise at the branch main: it compares the stripped policy
  branch \<open>main\<close> with the whole field \<open>!main\<close> and matches it against the glob compiled
  from \<open>!main\<close>, finds no match, and returns true.
\<close>

theorem cleanupTrigger_negated_main:
  "cleanupTrigger glob_Compile ''main''
     (Some \<lparr>Cleanup_AppToCleanup = ''my-app'', Cleanup_Event = CleanupBranchDeleted,
            Cleanup_Branch = ''!main''\<rparr>) = Inr True"
  by (simp add: trigger_defs)

text \<open>
  Claim C2: with \<open>d.tag\<close> set and \<open>d.event\<close> equal to tag, \<open>deployTrigger\<close> strips a leading
  exclamation mark from the tag pattern, matches the stripped pattern against the tag of
  the artifact by equality or by glob, and returns false when the pattern is negated and
  matches. The source does otherwise: it compiles the glob from the whole field, so the
  policy tag \<open>!v*\<close> does not match the artifact tag \<open>v1\<close>, and the trigger fires.
\<close>

theorem deployTrigger_negated_tag:
  "deployTrigger glob_Compile
     (Artifact_zero\<lparr>Artifact_Version := Version_zero\<lparr>Version_Tag := ''v1'', Version_Event := Tag\<rparr>\<rparr>)
     (Some \<lparr>Deploy_Tag = ''!v*'', Deploy_Branch = [], Deploy_Event = Some Tag\<rparr>) = Inr True"
  by (simp add: trigger_defs Artifact_zero_def Version_zero_def)

text \<open>
  Without negation the local \<open>tag\<close> of the source is the (empty) policy branch, so an
  artifact with an empty tag is an exact match of every tag pattern.
\<close>

lemma deployTrigger_empty_tag:
  "deployTrigger glob_Compile
     (Artifact_zero\<lparr>Artifact_Version := Version_zero\<lparr>Version_Tag := [], Version_Event := Tag\<rparr>\<rparr>)
     (Some \<lparr>Deploy_Tag = ''v*'', Deploy_Branch = [], Deploy_Event = Some Tag\<rparr>) = Inr True"
  by (simp add: trigger_defs Artifact_zero_def Version_zero_def)

text \<open>
  Claim C4: \<open>deployTrigger(a, d)\<close> is false when \<open>d\<close> is nil, when the branch, the tag and
  the event of \<open>d\<close> are all empty, when the branch is set and the event is neither push nor
  pr, and when the tag is set and the event is not tag. This holds for every glob
  library: the source returns before it compiles a pattern.
\<close>

theorem deployTrigger_false_early:
  "deployTrigger compile a None = Inr False \<and>
   (Deploy_Branch d = [] \<and> Deploy_Tag d = [] \<and> Deploy_Event d = None
      \<longrightarrow> deployTrigger compile a (Some d) = Inr False) \<and>
   (Deploy_Branch d \<noteq> [] \<and> Deploy_Event d \<noteq> Some Push \<and> Deploy_Event d \<noteq> Some PR
      \<longrightarrow> deployTrigger compile a (Some d) = Inr False) \<and>
   (Deploy_Tag d \<noteq> [] \<and> Deploy_Event d \<noteq> Some Tag
      \<longrightarrow> deployTrigger compile a (Some d) = Inr False)"
  by (auto simp add: deployTrigger_def)

theorem deployTrigger_false_early_witness:
  "deployTrigger glob_Compile Artifact_zero
     (Some \<lparr>Deploy_Tag = [], Deploy_Branch = [], Deploy_Event = None\<rparr>) = Inr False \<and>
   deployTrigger glob_Compile Artifact_zero
     (Some \<lparr>Deploy_Tag = [], Deploy_Branch = ''main'', Deploy_Event = Some Tag\<rparr>) = Inr False \<and>
   deployTrigger glob_Compile Artifact_zero
     (Some \<lparr>Deploy_Tag = ''v*'', Deploy_Branch = [], Deploy_Event = None\<rparr>) = Inr False"
  using deployTrigger_false_early [of glob_Compile Artifact_zero
          "\<lparr>Deploy_Tag = [], Deploy_Branch = [], Deploy_Event = None\<rparr>"]
        deployTrigger_false_early [of glob_Compile Artifact_zero
          "\<lparr>Deploy_Tag = [], Deploy_Branch = ''main'', Deploy_Event = Some Tag\<rparr>"]
        deployTrigger_false_early [of glob_Compile Artifact_zero
          "\<lparr>Deploy_Tag = ''v*'', Deploy_Branch = [], Deploy_Event = None\<rparr>"]
  by simp


section \<open>Properties of sanitizeDNSName\<close>

lemma runs_Nil_iff [simp]: "runs P xs = [] \<longleftrightarrow> xs = []"
  by (cases xs) (auto split: list.splits)

lemma hd_hd_runs: "xs \<noteq> [] \<Longrightarrow> hd (hd (runs P xs)) = hd xs"
  by (cases xs) (auto split: list.splits)

lemma runs_nonempty: "r \<in> set (runs P xs) \<Longrightarrow> r \<noteq> []"
  by (induction xs arbitrary: r) (auto split: list.splits if_splits)

lemma runs_Cons_outside:
  "\<not> P x \<Longrightarrow>
   runs P (x # xs) = (x # takeWhile (\<lambda>y. \<not> P y) xs) # runs P (dropWhile (\<lambda>y. \<not> P y) xs)"
proof (induction xs arbitrary: x)
  case Nil
  then show ?case by simp
next
  case (Cons y ys)
  show ?case
  proof (cases "P y")
    case True
    obtain r rs where rr: "runs P (y # ys) = r # rs"
      by (cases "runs P (y # ys)") (simp_all del: runs.simps)
    have "hd r = y" using hd_hd_runs [of "y # ys" P] rr by simp
    with True Cons.prems rr show ?thesis by (simp del: runs.simps add: runs.simps(2) [of P x])
  next
    case False
    from Cons.IH [OF False] have "runs P (y # ys) =
      (y # takeWhile (\<lambda>y. \<not> P y) ys) # runs P (dropWhile (\<lambda>y. \<not> P y) ys)" .
    with False Cons.prems show ?thesis by (simp del: runs.simps add: runs.simps(2) [of P x])
  qed
qed

lemma replace_runs_ref_Cons:
  "replace_runs_ref (c # cs) =
     (if in_0_9a_z c then c # replace_runs_ref cs
      else CHR ''-'' # replace_runs_ref (dropWhile (\<lambda>x. \<not> in_0_9a_z x) cs))"
proof (cases "in_0_9a_z c")
  case True
  show ?thesis
  proof (cases "runs in_0_9a_z cs")
    case Nil
    with True show ?thesis by (simp add: replace_runs_ref_def)
  next
    case (Cons r rs)
    with True show ?thesis by (simp add: replace_runs_ref_def)
  qed
next
  case False
  have "runs in_0_9a_z (c # cs) =
      (c # takeWhile (\<lambda>y. \<not> in_0_9a_z y) cs) # runs in_0_9a_z (dropWhile (\<lambda>y. \<not> in_0_9a_z y) cs)"
    using False by (rule runs_Cons_outside [of in_0_9a_z c cs])
  with False show ?thesis
    by (simp add: replace_runs_ref_def del: runs.simps)
qed

lemma ReplaceAllString_dash_ref: "ReplaceAllString_dash s = replace_runs_ref s"
  by (induction s rule: ReplaceAllString_dash.induct)
     (simp_all add: replace_runs_ref_Cons, simp add: replace_runs_ref_def)


lemma TrimSuffix_dash: "strings_TrimSuffix s ''-'' = remove_trailing_dash s"
proof (cases s rule: rev_cases)
  case Nil
  then show ?thesis
    by (simp add: strings_TrimSuffix_def strings_HasSuffix_def remove_trailing_dash_def)
next
  case (snoc ys y)
  then show ?thesis
    by (simp add: strings_TrimSuffix_def strings_HasSuffix_def remove_trailing_dash_def)
qed

lemma TrimPrefix_dash: "strings_TrimPrefix s ''-'' = remove_leading_dash s"
  by (cases s) (simp_all add: strings_TrimPrefix_def strings_HasPrefix_def remove_leading_dash_def)

lemma remove_dashes_commute:
  "remove_leading_dash (remove_trailing_dash s) = remove_trailing_dash (remove_leading_dash s)"
proof (cases s)
  case Nil
  then show ?thesis by (simp add: remove_leading_dash_def remove_trailing_dash_def)
next
  case (Cons c cs)
  then show ?thesis
    by (cases cs rule: rev_cases)
       (simp_all add: remove_leading_dash_def remove_trailing_dash_def)
qed

lemma sanitizeDNSName_eq_ref: "sanitizeDNSName ToLower s = sanitizeDNSName_ref ToLower s"
  by (simp add: sanitizeDNSName_def sanitizeDNSName_ref_def Let_def TrimSuffix_dash
      TrimPrefix_dash remove_dashes_commute ReplaceAllString_dash_ref)

lemma dash_outside [simp]: "\<not> in_0_9a_z CHR ''-''"
  by (simp add: in_0_9a_z_def)

lemma label_chars_Replace: "label_chars (ReplaceAllString_dash s)"
  by (induction s rule: ReplaceAllString_dash.induct) (simp_all add: label_chars_def)

lemma hd_Replace_inside:
  "s \<noteq> [] \<Longrightarrow> in_0_9a_z (hd s) \<Longrightarrow> hd (ReplaceAllString_dash s) = hd s \<and> ReplaceAllString_dash s \<noteq> []"
  by (cases s) simp_all

lemma no_double_dash_Cons:
  "no_double_dash (a # s) = ((s = [] \<or> \<not> (a = CHR ''-'' \<and> hd s = CHR ''-'')) \<and> no_double_dash s)"
  by (cases s) auto


lemma no_double_dash_snoc:
  "no_double_dash (s @ [a]) = ((s = [] \<or> \<not> (last s = CHR ''-'' \<and> a = CHR ''-'')) \<and> no_double_dash s)"
proof (induction s)
  case Nil
  then show ?case by simp
next
  case (Cons b s)
  then show ?case
    by (cases s) (auto simp del: no_double_dash.simps simp add: no_double_dash_Cons)
qed

lemma no_double_dash_Replace: "no_double_dash (ReplaceAllString_dash s)"
proof (induction s rule: ReplaceAllString_dash.induct)
  case 1
  then show ?case by simp
next
  case (2 c cs)
  show ?case
  proof (cases "in_0_9a_z c")
    case True
    then have "c \<noteq> CHR ''-''" by auto
    with True 2 show ?thesis by (simp add: no_double_dash_Cons del: no_double_dash.simps)
  next
    case False
    define r where "r = dropWhile (\<lambda>x. \<not> in_0_9a_z x) cs"
    have ih: "no_double_dash (ReplaceAllString_dash r)"
      using 2 False by (simp add: r_def)
    have "ReplaceAllString_dash r = [] \<or> hd (ReplaceAllString_dash r) \<noteq> CHR ''-''"
    proof (cases "r = []")
      case True
      then show ?thesis by simp
    next
      case False
      then have "in_0_9a_z (hd r)"
        using hd_dropWhile [of "\<lambda>x. \<not> in_0_9a_z x" cs] by (simp add: r_def)
      with False have "hd (ReplaceAllString_dash r) = hd r" and "in_0_9a_z (hd r)"
        using hd_Replace_inside [of r] by simp_all
      then show ?thesis by auto
    qed
    with ih have "no_double_dash (CHR ''-'' # ReplaceAllString_dash r)"
      by (auto simp add: no_double_dash_Cons simp del: no_double_dash.simps)
    with False show ?thesis by (simp add: r_def del: no_double_dash.simps)
  qed
qed

lemma no_double_dash_take: "no_double_dash s \<Longrightarrow> no_double_dash (take n s)"
proof (induction s arbitrary: n)
  case Nil
  then show ?case by simp
next
  case (Cons a s)
  show ?case
  proof (cases n)
    case 0
    then show ?thesis by simp
  next
    case (Suc m)
    have "no_double_dash (take m s)" using Cons by (simp add: no_double_dash_Cons del: no_double_dash.simps)
    moreover have "take m s = [] \<or> hd (take m s) = hd s" by (cases s; cases m) simp_all
    moreover have "s = [] \<or> \<not> (a = CHR ''-'' \<and> hd s = CHR ''-'')"
      using Cons.prems by (simp add: no_double_dash_Cons del: no_double_dash.simps)
    ultimately show ?thesis using Suc
      by (auto simp add: no_double_dash_Cons simp del: no_double_dash.simps)
  qed
qed

lemma label_chars_take: "label_chars s \<Longrightarrow> label_chars (take n s)"
  unfolding label_chars_def list_all_iff by (auto dest: in_set_takeD)

lemma trailing_step:
  assumes "label_chars u" and "no_double_dash u"
  shows "label_chars (remove_trailing_dash u) \<and> no_double_dash (remove_trailing_dash u) \<and>
         (remove_trailing_dash u = [] \<or> last (remove_trailing_dash u) \<noteq> CHR ''-'')"
proof (cases u rule: rev_cases)
  case Nil
  then show ?thesis by (simp add: remove_trailing_dash_def label_chars_def)
next
  case (snoc ys y)
  with assms show ?thesis
    by (auto simp add: remove_trailing_dash_def label_chars_def no_double_dash_snoc)
qed

lemma leading_step:
  assumes "label_chars v" and "no_double_dash v" and "v = [] \<or> last v \<noteq> CHR ''-''"
  shows "label_chars (remove_leading_dash v) \<and>
         (remove_leading_dash v = [] \<or>
          (hd (remove_leading_dash v) \<noteq> CHR ''-'' \<and> last (remove_leading_dash v) \<noteq> CHR ''-''))"
proof (cases v)
  case Nil
  then show ?thesis by (simp add: remove_leading_dash_def label_chars_def)
next
  case (Cons c cs)
  with assms show ?thesis
    by (auto simp add: remove_leading_dash_def label_chars_def no_double_dash_Cons
             simp del: no_double_dash.simps split: if_splits)
qed

lemma label_from_ends:
  assumes "label_chars w" and "w = [] \<or> (hd w \<noteq> CHR ''-'' \<and> last w \<noteq> CHR ''-'')"
  shows "rfc1123_label w"
proof (cases "w = []")
  case True
  then show ?thesis by (simp add: rfc1123_label_def)
next
  case False
  then have "hd w \<in> set w" and "last w \<in> set w" by simp_all
  with assms False show ?thesis
    unfolding rfc1123_label_def label_chars_def list_all_iff by auto
qed

lemma sanitizeDNSName_label: "rfc1123_label (sanitizeDNSName ToLower s)"
proof -
  define u where "u = take 63 (ReplaceAllString_dash (ToLower s))"
  have u: "label_chars u" "no_double_dash u"
    by (simp_all add: u_def label_chars_take label_chars_Replace no_double_dash_take no_double_dash_Replace)
  have eq: "sanitizeDNSName ToLower s = remove_leading_dash (remove_trailing_dash u)"
    by (simp add: sanitizeDNSName_def Let_def TrimSuffix_dash TrimPrefix_dash u_def)
  from trailing_step [OF u] leading_step [of "remove_trailing_dash u"]
  have "label_chars (remove_leading_dash (remove_trailing_dash u)) \<and>
        (remove_leading_dash (remove_trailing_dash u) = [] \<or>
          (hd (remove_leading_dash (remove_trailing_dash u)) \<noteq> CHR ''-'' \<and>
           last (remove_leading_dash (remove_trailing_dash u)) \<noteq> CHR ''-''))"
    by blast
  then show ?thesis unfolding eq by (intro label_from_ends) simp_all
qed

lemma length_remove_leading: "length (remove_leading_dash s) \<le> length s"
  by (cases s) (simp_all add: remove_leading_dash_def)

lemma length_remove_trailing: "length (remove_trailing_dash s) \<le> length s"
  by (simp add: remove_trailing_dash_def)

lemma sanitizeDNSName_length: "length (sanitizeDNSName ToLower s) \<le> 63"
proof -
  define u where "u = take 63 (ReplaceAllString_dash (ToLower s))"
  have eq: "sanitizeDNSName ToLower s = remove_leading_dash (remove_trailing_dash u)"
    by (simp add: sanitizeDNSName_def Let_def TrimSuffix_dash TrimPrefix_dash u_def)
  have "length u \<le> 63" by (simp add: u_def)
  with length_remove_leading [of "remove_trailing_dash u"] length_remove_trailing [of u]
  show ?thesis unfolding eq by linarith
qed


lemmas sanitizeDNSName_eval = sanitizeDNSName_def strings_ToLower_ascii_def in_0_9a_z_def
  strings_TrimSuffix_def strings_TrimPrefix_def strings_HasPrefix_def strings_HasSuffix_def

lemma sanitizeDNSName_dependabot:
  "sanitizeDNSName strings_ToLower_ascii ''dependabot/npm_and_yarn/ws-5.2.3'' =
     ''dependabot-npm-and-yarn-ws-5-2-3''"
  by (simp add: sanitizeDNSName_eval)

lemma sanitizeDNSName_dashes:
  "sanitizeDNSName strings_ToLower_ascii ''-can't start with dashes, nor end-'' =
     ''can-t-start-with-dashes-nor-end''"
  by (simp add: sanitizeDNSName_eval)

lemma sanitizeDNSName_CamelCase:
  "sanitizeDNSName strings_ToLower_ascii ''CamelCase_with_snake'' = ''camelcase-with-snake''"
  by (simp add: sanitizeDNSName_eval)

text \<open>
  Claim C5: for every string \<open>s\<close>, \<open>sanitizeDNSName(s)\<close> is the reference definition
  (lowercase, every maximal run of characters outside \<open>[0-9a-z]\<close> replaced by one dash,
  truncated to 63 characters, a leading and a trailing dash removed); its output matches
  \<open>^([a-z0-9]([-a-z0-9]*[a-z0-9])?)?$\<close> and is at most 63 long; and the two examples of the
  claim evaluate as it says. The first three parts hold for every lowercasing function.
\<close>

theorem sanitizeDNSName_spec:
  "sanitizeDNSName ToLower s = sanitizeDNSName_ref ToLower s \<and>
   rfc1123_label (sanitizeDNSName ToLower s) \<and>
   length (sanitizeDNSName ToLower s) \<le> 63 \<and>
   sanitizeDNSName strings_ToLower_ascii ''dependabot/npm_and_yarn/ws-5.2.3'' =
     ''dependabot-npm-and-yarn-ws-5-2-3'' \<and>
   sanitizeDNSName strings_ToLower_ascii ''-can't start with dashes, nor end-'' =
     ''can-t-start-with-dashes-nor-end''"
  using sanitizeDNSName_eq_ref [of ToLower s] sanitizeDNSName_label [of ToLower s]
    sanitizeDNSName_length [of ToLower s] sanitizeDNSName_dependabot sanitizeDNSName_dashes
  by simp

theorem sanitizeDNSName_spec_witness:
  "sanitizeDNSName_ref strings_ToLower_ascii ''CamelCase_with_snake'' = ''camelcase-with-snake'' \<and>
   rfc1123_label ''camelcase-with-snake'' \<and>
   length ''camelcase-with-snake'' \<le> (63 :: nat)"
proof -
  note e = sanitizeDNSName_CamelCase
  from sanitizeDNSName_spec [of strings_ToLower_ascii "''CamelCase_with_snake''"]
  have a0: "''camelcase-with-snake'' = sanitizeDNSName_ref strings_ToLower_ascii ''CamelCase_with_snake''"
    and b: "rfc1123_label ''camelcase-with-snake''"
    unfolding e by blast+
  from a0 have a: "sanitizeDNSName_ref strings_ToLower_ascii ''CamelCase_with_snake'' =
      ''camelcase-with-snake''"
    by (rule sym)
  have c: "length ''camelcase-with-snake'' \<le> (63 :: nat)" by simp
  from a b c show ?thesis by blast
qed


section \<open>Properties of ResolveVars\<close>

text \<open>
  Once the template has been executed, \<open>Manifest.ResolveVars\<close> restores the cleanup block,
  whatever the parsed document holds and whether or not parsing it fails.
\<close>

lemma ResolveVars_keeps_Cleanup_after_execute:
  "yaml_Marshal_Manifest x (m\<lparr>Manifest_Cleanup := None\<rparr>) = Inr text \<Longrightarrow>
   template_Parse x text = None \<Longrightarrow>
   template_Execute x tr text vars = Inr out \<Longrightarrow>
   Manifest_Cleanup (snd (fst (Manifest_ResolveVars x m vars tr))) = Manifest_Cleanup m"
  by (simp add: Manifest_ResolveVars_def split: prod.splits)

text \<open>
  The three earlier returns (the manifest does not marshal, the template does not parse,
  the template does not execute) leave the cleanup block nil.
\<close>

lemma ResolveVars_drops_Cleanup_on_error:
  "yaml_Marshal_Manifest x (m\<lparr>Manifest_Cleanup := None\<rparr>) = Inl e \<or>
   (\<exists>text. yaml_Marshal_Manifest x (m\<lparr>Manifest_Cleanup := None\<rparr>) = Inr text \<and>
      (template_Parse x text \<noteq> None \<or> (\<exists>e. template_Execute x tr text vars = Inl e))) \<Longrightarrow>
   Manifest_Cleanup (snd (fst (Manifest_ResolveVars x m vars tr))) = None"
  by (auto simp add: Manifest_ResolveVars_def Let_def split: prod.splits sum.splits option.splits)

text \<open>
  Claim C8: for every manifest and every variable map, after \<open>m.ResolveVars(vars)\<close>
  returns, \<open>m.Cleanup\<close> is the value it had before the call. The source does otherwise when
  the template does not parse: the manifest below has a cleanup block and an application
  name with an unclosed action; \<open>ResolveVars\<close> returns the parse error and leaves the
  cleanup block nil.
\<close>

theorem ResolveVars_unclosed_action_loses_Cleanup:
  "Manifest_ResolveVars fixture
     (Manifest_zero\<lparr>Manifest_App := ''my-app-{{ .BRANCH'',
        Manifest_Cleanup := Some cleanup_example\<rparr>)
     [''BRANCH'' \<mapsto> ''feature-x''] [] =
   ((Some ''template: unclosed action'',
     Manifest_zero\<lparr>Manifest_App := ''my-app-{{ .BRANCH'', Manifest_Cleanup := None\<rparr>), [])"
  by (simp add: Manifest_ResolveVars_def fixture_def Manifest_zero_def strings_HasPrefix_def)


section \<open>Properties of the worker\<close>

subsection \<open>Rollback events\<close>

text \<open>
  When the write instance of the repository cannot be obtained, the rollback event is
  broadcast once, with the failure, and the event gets the status error.
\<close>

lemma processEvent_rollback_git_failure:
  assumes "Event_Type event = TypeRollback"
    and "json_Unmarshal_RollbackRequest x (Event_Blob event) = Some rr"
    and "repoCache_InstanceForWrite x (trace_after_token x tr) = Some e"
  shows "processEvent x gitopsRepo event tr =
           (Inr (event\<lparr>Event_Status := StatusError, Event_StatusDesc := e\<rparr>),
            trace_after_token x tr @
              [ActInstanceForWrite, ActTmpFsCleanup,
               ActBroadcast (MessageFromRollbackEvent
                 (Some \<lparr>RollbackEvent_RollbackRequest = rr, RollbackEvent_Status = Failure,
                         RollbackEvent_StatusDesc = e, RollbackEvent_GitopsRefs = [],
                         RollbackEvent_GitopsRepo = gitopsRepo\<rparr>)),
               ActUpdateEventStatus (Event_ID event) StatusError e
                 (json_Marshal (Event_GitopsHashes event))])"
  using assms
  by (simp add: processEvent_def processRollbackEvent_def processEvent_store_def updateEvent_def
      trace_after_token_def Let_def split: option.splits)

text \<open>
  When the blob does not parse, \<open>processRollbackEvent\<close> returns a nil event, and
  \<open>processEvent\<close> reads \<open>rollbackEvent.GitopsRefs\<close> through it.
\<close>

lemma rollback_unparsable_panics:
  "Event_Type event = TypeRollback \<Longrightarrow>
   json_Unmarshal_RollbackRequest x (Event_Blob event) = None \<Longrightarrow>
   fst (processEvent x gitopsRepo event tr) = Inl NilPointerDereference"
  by (simp add: processEvent_def processRollbackEvent_def split: option.splits prod.splits)

text \<open>
  Claim C3: for every rollback event, also one whose blob cannot be parsed and one whose
  git operations fail, \<open>processEvent\<close> broadcasts exactly one rollback notification and
  then writes a terminal status on the event, without crashing the process. The source
  does otherwise on a blob that does not parse: the worker panics on the nil rollback
  event after the broadcast, and no status is written.
\<close>

theorem processEvent_rollback_unparsable_blob:
  "processEvent fixture ''git@example.com:gitops.git''
     (Event_zero\<lparr>Event_ID := ''e1'', Event_Type := TypeRollback, Event_Blob := ''not json''\<rparr>) [] =
   (Inl NilPointerDereference, [ActBroadcast (MessageFromRollbackEvent None)])"
  by (simp add: processEvent_def processRollbackEvent_def fixture_def Event_zero_def)

subsection \<open>The gitops hashes of an event\<close>

lemma setGitopsHashOnEvent_empty: "setGitopsHashOnEvent event [] = event"
  by (simp add: setGitopsHashOnEvent_def)

lemma GitopsHashes_fold:
  "Event_GitopsHashes (fold (\<lambda>sha ev. setGitopsHashOnEvent ev sha) shas event) =
     (if filter (\<lambda>sha. sha \<noteq> []) shas = [] then Event_GitopsHashes event
      else Some ((case Event_GitopsHashes event of None \<Rightarrow> [] | Some xs \<Rightarrow> xs) @
                 filter (\<lambda>sha. sha \<noteq> []) shas))"
proof (induction shas arbitrary: event)
  case Nil
  then show ?case by simp
next
  case (Cons sha shas)
  show ?case
  proof (cases "sha = []")
    case True
    with Cons [of event] show ?thesis by (simp add: setGitopsHashOnEvent_def)
  next
    case False
    with Cons [of "setGitopsHashOnEvent event sha"] show ?thesis
      by (simp add: setGitopsHashOnEvent_def split: option.splits)
  qed
qed

text \<open>
  The hashes that reach the store are a JSON array of the non-empty hashes recorded, in
  the order of recording, as soon as one non-empty hash was recorded.
\<close>

lemma json_Marshal_recorded:
  "filter (\<lambda>sha. sha \<noteq> []) shas \<noteq> [] \<Longrightarrow>
   json_Marshal (Event_GitopsHashes (fold (\<lambda>sha ev. setGitopsHashOnEvent ev sha) shas event)) =
     JArray ((case Event_GitopsHashes event of None \<Rightarrow> [] | Some xs \<Rightarrow> xs) @
             filter (\<lambda>sha. sha \<noteq> []) shas)"
  by (simp add: GitopsHashes_fold json_Marshal_def)

text \<open>
  Claim C6: for every event reaching a terminal status, the hashes handed to
  \<open>UpdateEventStatus\<close> are a JSON array of the recorded hashes in recording order, also when
  no hash was ever recorded; empty hashes are never recorded. The source does otherwise
  for an event on which nothing was recorded: the slice is still nil and \<open>json.Marshal\<close>
  writes null. The event below is an artifact event whose artifact has no environment.
\<close>

theorem processEvent_no_hash_serializes_null:
  "processEvent (fixture\<lparr>model_ToArtifact := (\<lambda>e. Inr Artifact_zero)\<rparr>)
     ''git@example.com:gitops.git'' event_artifact_example [] =
   (Inr (event_artifact_example\<lparr>Event_Status := StatusProcessed\<rparr>),
    [ActUpdateEventStatus ''e1'' StatusProcessed [] JNull])"
  by (simp add: processEvent_def processArtifactEvent_def processEvent_store_def updateEvent_def
      json_Marshal_def HasCleanupPolicy_def fixture_def Event_zero_def Artifact_zero_def
      event_artifact_example_def)

subsection \<open>Branch deletion\<close>

lemma commit_messages_append [simp]:
  "commit_messages (tr @ tr') = commit_messages tr @ commit_messages tr'"
  by (simp add: commit_messages_def)

lemma commit_messages_Cons [simp]:
  "commit_messages (a # tr) = (case a of ActCommit m \<Rightarrow> [m] | _ \<Rightarrow> []) @ commit_messages tr"
  by (simp add: commit_messages_def)

lemma commit_messages_Nil [simp]: "commit_messages [] = []"
  by (simp add: commit_messages_def)

lemma cloneTemplateDeleteAndPush_nothing_to_commit:
  assumes "repoCache_InstanceForWrite x tr = None"
    and "nativeGit_DelDir x (tr @ [ActInstanceForWrite])
           (filepath_Join x env (Cleanup_AppToCleanup c)) = None"
    and "nativeGit_NothingToCommit x
           (tr @ [ActInstanceForWrite, ActDelDir (filepath_Join x env (Cleanup_AppToCleanup c))]) =
         (True, None)"
  shows "cloneTemplateDeleteAndPush x c env triggeredBy gitopsEvent tr =
           ((None, None),
            tr @ [ActInstanceForWrite, ActDelDir (filepath_Join x env (Cleanup_AppToCleanup c)),
                  ActNothingToCommit, ActTmpFsCleanup])"
  using assms by (simp add: cloneTemplateDeleteAndPush_def)

lemma cloneTemplateDeleteAndPush_commit_message:
  assumes "repoCache_InstanceForWrite x tr = None"
    and "nativeGit_DelDir x (tr @ [ActInstanceForWrite])
           (filepath_Join x env (Cleanup_AppToCleanup c)) = None"
    and "nativeGit_NothingToCommit x
           (tr @ [ActInstanceForWrite, ActDelDir (filepath_Join x env (Cleanup_AppToCleanup c))]) =
         (False, None)"
  shows "commit_messages (snd (cloneTemplateDeleteAndPush x c env triggeredBy gitopsEvent tr)) =
           commit_messages tr @
           [''[GimletD delete] '' @ env @ ''/'' @ Cleanup_AppToCleanup c @ '' deleted by '' @ triggeredBy]"
  using assms by (simp add: cloneTemplateDeleteAndPush_def Let_def split: prod.splits option.splits)

lemma processBranchDeletedEvent_loop_skip:
  assumes "Manifest_Cleanup m = Some c"
    and "Cleanup_ResolveVars x c [''BRANCH'' \<mapsto> BranchDeletedEvent_Branch bde] tr = ((None, c1), tr1)"
    and "cleanupTrigger (glob_Compile_ext x) (BranchDeletedEvent_Branch bde) (Some c1) = Inr True"
    and "repoCache_InstanceForWrite x tr1 = None"
    and "nativeGit_DelDir x (tr1 @ [ActInstanceForWrite])
           (filepath_Join x (Manifest_Env m) (Cleanup_AppToCleanup c1)) = None"
    and "nativeGit_NothingToCommit x
           (tr1 @ [ActInstanceForWrite,
                   ActDelDir (filepath_Join x (Manifest_Env m) (Cleanup_AppToCleanup c1))]) =
         (True, None)"
  shows "processBranchDeletedEvent_loop x gitopsRepo bde (m # rest) deletedEvents tr =
         processBranchDeletedEvent_loop x gitopsRepo bde rest deletedEvents
           (tr1 @ [ActInstanceForWrite,
                   ActDelDir (filepath_Join x (Manifest_Env m) (Cleanup_AppToCleanup c1)),
                   ActNothingToCommit, ActTmpFsCleanup])"
  using assms
  by (simp add: cloneTemplateDeleteAndPush_nothing_to_commit [OF assms(4-6)])

lemma processEvent_branch_deleted_nothing_to_commit:
  assumes "Event_Type event = TypeBranchDeleted"
    and "json_Unmarshal_BranchDeletedEvent x (Event_Blob event) = Some bde"
    and "BranchDeletedEvent_Manifests bde = [m]"
    and "Manifest_Cleanup m = Some c"
    and "Cleanup_ResolveVars x c [''BRANCH'' \<mapsto> BranchDeletedEvent_Branch bde]
           (trace_after_token x tr) = ((None, c1), tr1)"
    and "cleanupTrigger (glob_Compile_ext x) (BranchDeletedEvent_Branch bde) (Some c1) = Inr True"
    and "repoCache_InstanceForWrite x tr1 = None"
    and "nativeGit_DelDir x (tr1 @ [ActInstanceForWrite])
           (filepath_Join x (Manifest_Env m) (Cleanup_AppToCleanup c1)) = None"
    and "nativeGit_NothingToCommit x
           (tr1 @ [ActInstanceForWrite,
                   ActDelDir (filepath_Join x (Manifest_Env m) (Cleanup_AppToCleanup c1))]) =
         (True, None)"
  shows "processEvent x gitopsRepo event tr =
           (Inr (event\<lparr>Event_Status := StatusProcessed\<rparr>),
            tr1 @ [ActInstanceForWrite,
                   ActDelDir (filepath_Join x (Manifest_Env m) (Cleanup_AppToCleanup c1)),
                   ActNothingToCommit, ActTmpFsCleanup,
                   ActUpdateEventStatus (Event_ID event) StatusProcessed (Event_StatusDesc event)
                     (json_Marshal (Event_GitopsHashes event))])"
proof -
  have loop: "processBranchDeletedEvent_loop x gitopsRepo bde [m] [] (trace_after_token x tr) =
      (Inr ([], None),
       tr1 @ [ActInstanceForWrite,
              ActDelDir (filepath_Join x (Manifest_Env m) (Cleanup_AppToCleanup c1)),
              ActNothingToCommit, ActTmpFsCleanup])"
    using processBranchDeletedEvent_loop_skip [OF assms(4-9), of gitopsRepo "[]" "[]"]
    by (simp del: processBranchDeletedEvent_loop.simps(2))
  show ?thesis
    using assms(1-3) loop
    by (simp add: processEvent_def processBranchDeletedEvent_def processEvent_store_def
        updateEvent_def trace_after_token_def Let_def split: option.splits
        del: processBranchDeletedEvent_loop.simps)
qed

text \<open>
  Where no deletion changes the working tree, a branch-deleted event with any number of
  manifests leaves no commit, no push and no recorded hash, and when it is stored as
  processed no delete event was broadcast. The invariant of the loop is proved by
  induction on the manifests.
\<close>

lemma delete_events_broadcast_append [simp]:
  "delete_events_broadcast (tr @ tr') = delete_events_broadcast tr @ delete_events_broadcast tr'"
  by (simp add: delete_events_broadcast_def)

lemma delete_events_broadcast_Nil [simp]: "delete_events_broadcast [] = []"
  by (simp add: delete_events_broadcast_def)

lemma delete_events_broadcast_Cons [simp]:
  "delete_events_broadcast (a # tr) =
     (case a of ActBroadcast (MessageFromDeleteEvent d) \<Rightarrow> [d] | _ \<Rightarrow> []) @ delete_events_broadcast tr"
  by (simp add: delete_events_broadcast_def)

lemma Cleanup_ResolveVars_trace:
  "snd (Cleanup_ResolveVars x c vars tr) = tr \<or>
   (\<exists>t. snd (Cleanup_ResolveVars x c vars tr) = tr @ [ActTemplateExecute t])"
  by (auto simp add: Cleanup_ResolveVars_def split: sum.splits option.splits)

lemma Cleanup_ResolveVars_quiet:
  "commit_messages (snd (Cleanup_ResolveVars x c vars tr)) = commit_messages tr \<and>
   count_list (snd (Cleanup_ResolveVars x c vars tr)) ActPush = count_list tr ActPush \<and>
   delete_events_broadcast (snd (Cleanup_ResolveVars x c vars tr)) = delete_events_broadcast tr"
  using Cleanup_ResolveVars_trace [of x c vars tr] by auto

lemma processBranchDeletedEvent_loop_quiet:
  assumes "\<And>t. repoCache_InstanceForWrite x t = None"
    and "\<And>t p. nativeGit_DelDir x t p = None"
    and "\<And>t. nativeGit_NothingToCommit x t = (True, None)"
  shows "commit_messages (snd (processBranchDeletedEvent_loop x gitopsRepo bde ms acc tr)) =
           commit_messages tr \<and>
         count_list (snd (processBranchDeletedEvent_loop x gitopsRepo bde ms acc tr)) ActPush =
           count_list tr ActPush \<and>
         delete_events_broadcast (snd (processBranchDeletedEvent_loop x gitopsRepo bde ms acc tr)) =
           delete_events_broadcast tr \<and>
         quiet_result acc (fst (processBranchDeletedEvent_loop x gitopsRepo bde ms acc tr))"
proof (induction ms arbitrary: acc tr)
  case Nil
  then show ?case by (simp add: quiet_result_def)
next
  case (Cons m ms)
  show ?case
  proof (cases "Manifest_Cleanup m")
    case None
    with Cons show ?thesis by simp
  next
    case (Some c)
    obtain err c1 tr1 where r: "Cleanup_ResolveVars x c
        [''BRANCH'' \<mapsto> BranchDeletedEvent_Branch bde] tr = ((err, c1), tr1)"
      by (metis prod.exhaust)
    have q: "commit_messages tr1 = commit_messages tr"
      "count_list tr1 ActPush = count_list tr ActPush"
      "delete_events_broadcast tr1 = delete_events_broadcast tr"
      using Cleanup_ResolveVars_quiet
        [of x c "[''BRANCH'' \<mapsto> BranchDeletedEvent_Branch bde]" tr] r by simp_all
    show ?thesis
    proof (cases err)
      case (Some e)
      with \<open>Manifest_Cleanup m = Some c\<close> r q show ?thesis
        by (simp add: quiet_result_def)
    next
      case None
      note noerr = None
      show ?thesis
      proof (cases "cleanupTrigger (glob_Compile_ext x) (BranchDeletedEvent_Branch bde) (Some c1)")
        case (Inl p)
        with \<open>Manifest_Cleanup m = Some c\<close> r q noerr show ?thesis
          by (simp add: quiet_result_def)
      next
        case (Inr b)
        show ?thesis
        proof (cases b)
          case False
          with Inr \<open>Manifest_Cleanup m = Some c\<close> r q noerr Cons [of acc tr1] show ?thesis
            by simp
        next
          case True
          let ?tr2 = "tr1 @ [ActInstanceForWrite,
              ActDelDir (filepath_Join x (Manifest_Env m) (Cleanup_AppToCleanup c1)),
              ActNothingToCommit, ActTmpFsCleanup]"
          have step: "processBranchDeletedEvent_loop x gitopsRepo bde (m # ms) acc tr =
              processBranchDeletedEvent_loop x gitopsRepo bde ms acc ?tr2"
            using True Inr \<open>Manifest_Cleanup m = Some c\<close> r noerr assms
            by (simp add: cloneTemplateDeleteAndPush_def)
          have "commit_messages ?tr2 = commit_messages tr"
            "count_list ?tr2 ActPush = count_list tr ActPush"
            "delete_events_broadcast ?tr2 = delete_events_broadcast tr"
            using q by simp_all
          with Cons [of acc ?tr2] show ?thesis unfolding step by simp
        qed
      qed
    qed
  qed
qed

lemma fold_setGitopsHash_quiet:
  "list_all (\<lambda>ev. DeleteEvent_GitopsRef ev = []) evs \<Longrightarrow>
   fold (\<lambda>deleteEvent ev. setGitopsHashOnEvent ev (DeleteEvent_GitopsRef deleteEvent)) evs event = event"
  by (induction evs arbitrary: event) (simp_all add: setGitopsHashOnEvent_def)

lemma processEvent_branch_deleted_quiet:
  assumes "\<And>t. repoCache_InstanceForWrite x t = None"
    and "\<And>t p. nativeGit_DelDir x t p = None"
    and "\<And>t. nativeGit_NothingToCommit x t = (True, None)"
    and "Event_Type event = TypeBranchDeleted"
  shows "commit_messages (snd (processEvent x gitopsRepo event tr)) = commit_messages tr \<and>
         count_list (snd (processEvent x gitopsRepo event tr)) ActPush = count_list tr ActPush \<and>
         (\<forall>event1. fst (processEvent x gitopsRepo event tr) = Inr event1 \<longrightarrow>
            Event_GitopsHashes event1 = Event_GitopsHashes event \<and>
            (Event_Status event1 = StatusProcessed \<longrightarrow>
               delete_events_broadcast (snd (processEvent x gitopsRepo event tr)) =
               delete_events_broadcast tr))"
proof -
  let ?tr0 = "trace_after_token x tr"
  obtain r tr1 where h: "processBranchDeletedEvent x gitopsRepo event ?tr0 = (r, tr1)"
    by (metis prod.exhaust)
  have t0: "commit_messages ?tr0 = commit_messages tr"
    "count_list ?tr0 ActPush = count_list tr ActPush"
    "delete_events_broadcast ?tr0 = delete_events_broadcast tr"
    by (simp_all add: trace_after_token_def split: option.splits)
  have q: "commit_messages tr1 = commit_messages tr \<and>
      count_list tr1 ActPush = count_list tr ActPush \<and>
      delete_events_broadcast tr1 = delete_events_broadcast tr \<and> quiet_result [] r"
  proof (cases "json_Unmarshal_BranchDeletedEvent x (Event_Blob event)")
    case None
    with h t0 show ?thesis
      by (auto simp add: processBranchDeletedEvent_def quiet_result_def)
  next
    case (Some bde)
    with h processBranchDeletedEvent_loop_quiet [OF assms(1-3), of gitopsRepo bde
        "BranchDeletedEvent_Manifests bde" "[]" ?tr0] t0
    show ?thesis by (simp add: processBranchDeletedEvent_def)
  qed
  have pe: "processEvent x gitopsRepo event tr =
      (case r of
         Inl p \<Rightarrow> (Inl p, tr1)
       | Inr (deleteEvents, err) \<Rightarrow>
           (case processEvent_store x
                   (fold (\<lambda>deleteEvent ev.
                            setGitopsHashOnEvent ev (DeleteEvent_GitopsRef deleteEvent))
                      deleteEvents event)
                   [] err
                   (tr1 @ map (\<lambda>deleteEvent. ActBroadcast (MessageFromDeleteEvent deleteEvent))
                            deleteEvents) of
              (event1, tr2) \<Rightarrow> (Inr event1, tr2)))"
    using assms(4) h
    by (simp add: processEvent_def trace_after_token_def split: option.splits sum.splits)
  show ?thesis
  proof (cases r)
    case (Inl p)
    with pe q show ?thesis by simp
  next
    case (Inr res)
    obtain evs err where res: "res = (evs, err)" by (cases res)
    from q Inr res have cases: "(err = None \<and> evs = []) \<or>
        (err \<noteq> None \<and> list_all (\<lambda>ev. DeleteEvent_GitopsRef ev = [] \<and> DeleteEvent_Status ev = Failure) evs)"
      by (simp add: quiet_result_def)
    have refs: "list_all (\<lambda>ev. DeleteEvent_GitopsRef ev = []) evs"
      using cases by (auto simp add: list_all_iff)
    have cm: "commit_messages (map (\<lambda>deleteEvent. ActBroadcast (MessageFromDeleteEvent deleteEvent)) evs) = []"
      "count_list (map (\<lambda>deleteEvent. ActBroadcast (MessageFromDeleteEvent deleteEvent)) evs) ActPush = 0"
      by (induction evs) simp_all
    show ?thesis
      using pe q Inr res cases cm fold_setGitopsHash_quiet [OF refs, of event]
      by (auto simp add: processEvent_store_def updateEvent_def Let_def split: option.splits)
  qed
qed

text \<open>
  Claim C7: for every branch-deleted cleanup where deleting the directory \<open><env>/<app>\<close>
  leaves the working tree unchanged (the write instance is obtained, \<open>DelDir\<close> succeeds and
  \<open>NothingToCommit\<close> answers true), \<open>cloneTemplateDeleteAndPush\<close> returns (nil, nil) after
  these three calls and the deferred cleanup, without a commit or a push; the loop of the
  handler goes on to the remaining manifests with the events it had; and where no deletion
  changes the tree, a branch-deleted event with any manifests makes no commit and no push,
  records no hash, and broadcasts no delete event when it is stored as processed. The event
  of a single such manifest is stored as processed after exactly these calls. When the tree
  did change, the one commit made has the message
  \<open>[GimletD delete] <env>/<app> deleted by <triggeredBy>\<close>.
\<close>

theorem cleanup_nothing_to_commit:
  "(repoCache_InstanceForWrite x tr = None \<and>
    nativeGit_DelDir x (tr @ [ActInstanceForWrite])
      (filepath_Join x env (Cleanup_AppToCleanup c)) = None \<and>
    nativeGit_NothingToCommit x
      (tr @ [ActInstanceForWrite, ActDelDir (filepath_Join x env (Cleanup_AppToCleanup c))]) =
    (True, None)
    \<longrightarrow> cloneTemplateDeleteAndPush x c env triggeredBy gitopsEvent tr =
          ((None, None),
           tr @ [ActInstanceForWrite, ActDelDir (filepath_Join x env (Cleanup_AppToCleanup c)),
                 ActNothingToCommit, ActTmpFsCleanup])) \<and>
   (Manifest_Cleanup m = Some c0 \<and>
    Cleanup_ResolveVars x c0 [''BRANCH'' \<mapsto> BranchDeletedEvent_Branch bde] tr = ((None, c), tr1) \<and>
    cleanupTrigger (glob_Compile_ext x) (BranchDeletedEvent_Branch bde) (Some c) = Inr True \<and>
    repoCache_InstanceForWrite x tr1 = None \<and>
    nativeGit_DelDir x (tr1 @ [ActInstanceForWrite])
      (filepath_Join x (Manifest_Env m) (Cleanup_AppToCleanup c)) = None \<and>
    nativeGit_NothingToCommit x
      (tr1 @ [ActInstanceForWrite,
              ActDelDir (filepath_Join x (Manifest_Env m) (Cleanup_AppToCleanup c))]) =
    (True, None)
    \<longrightarrow> processBranchDeletedEvent_loop x gitopsRepo bde (m # rest) deletedEvents tr =
          processBranchDeletedEvent_loop x gitopsRepo bde rest deletedEvents
            (tr1 @ [ActInstanceForWrite,
                    ActDelDir (filepath_Join x (Manifest_Env m) (Cleanup_AppToCleanup c)),
                    ActNothingToCommit, ActTmpFsCleanup])) \<and>
   ((\<forall>t. repoCache_InstanceForWrite x t = None) \<and> (\<forall>t p. nativeGit_DelDir x t p = None) \<and>
    (\<forall>t. nativeGit_NothingToCommit x t = (True, None)) \<and>
    Event_Type event = TypeBranchDeleted
    \<longrightarrow> commit_messages (snd (processEvent x gitopsRepo event tr)) = commit_messages tr \<and>
          count_list (snd (processEvent x gitopsRepo event tr)) ActPush = count_list tr ActPush \<and>
          (\<forall>event1. fst (processEvent x gitopsRepo event tr) = Inr event1 \<longrightarrow>
             Event_GitopsHashes event1 = Event_GitopsHashes event \<and>
             (Event_Status event1 = StatusProcessed \<longrightarrow>
                delete_events_broadcast (snd (processEvent x gitopsRepo event tr)) =
                delete_events_broadcast tr))) \<and>
   (repoCache_InstanceForWrite x tr = None \<and>
    nativeGit_DelDir x (tr @ [ActInstanceForWrite])
      (filepath_Join x env (Cleanup_AppToCleanup c)) = None \<and>
    nativeGit_NothingToCommit x
      (tr @ [ActInstanceForWrite, ActDelDir (filepath_Join x env (Cleanup_AppToCleanup c))]) =
    (False, None)
    \<longrightarrow> commit_messages (snd (cloneTemplateDeleteAndPush x c env triggeredBy gitopsEvent tr)) =
          commit_messages tr @
          [''[GimletD delete] '' @ env @ ''/'' @ Cleanup_AppToCleanup c @ '' deleted by '' @
           triggeredBy]) \<and>
   (Event_Type event = TypeBranchDeleted \<and>
    json_Unmarshal_BranchDeletedEvent x (Event_Blob event) = Some bde \<and>
    BranchDeletedEvent_Manifests bde = [m] \<and>
    Manifest_Cleanup m = Some c0 \<and>
    Cleanup_ResolveVars x c0 [''BRANCH'' \<mapsto> BranchDeletedEvent_Branch bde]
      (trace_after_token x tr) = ((None, c), tr1) \<and>
    cleanupTrigger (glob_Compile_ext x) (BranchDeletedEvent_Branch bde) (Some c) = Inr True \<and>
    repoCache_InstanceForWrite x tr1 = None \<and>
    nativeGit_DelDir x (tr1 @ [ActInstanceForWrite])
      (filepath_Join x (Manifest_Env m) (Cleanup_AppToCleanup c)) = None \<and>
    nativeGit_NothingToCommit x
      (tr1 @ [ActInstanceForWrite,
              ActDelDir (filepath_Join x (Manifest_Env m) (Cleanup_AppToCleanup c))]) =
    (True, None)
    \<longrightarrow> processEvent x gitopsRepo event tr =
          (Inr (event\<lparr>Event_Status := StatusProcessed\<rparr>),
           tr1 @ [ActInstanceForWrite,
                  ActDelDir (filepath_Join x (Manifest_Env m) (Cleanup_AppToCleanup c)),
                  ActNothingToCommit, ActTmpFsCleanup,
                  ActUpdateEventStatus (Event_ID event) StatusProcessed (Event_StatusDesc event)
                    (json_Marshal (Event_GitopsHashes event))]))"
proof (intro conjI impI)
  assume "repoCache_InstanceForWrite x tr = None \<and>
    nativeGit_DelDir x (tr @ [ActInstanceForWrite])
      (filepath_Join x env (Cleanup_AppToCleanup c)) = None \<and>
    nativeGit_NothingToCommit x
      (tr @ [ActInstanceForWrite, ActDelDir (filepath_Join x env (Cleanup_AppToCleanup c))]) =
    (True, None)"
  then show "cloneTemplateDeleteAndPush x c env triggeredBy gitopsEvent tr =
      ((None, None),
       tr @ [ActInstanceForWrite, ActDelDir (filepath_Join x env (Cleanup_AppToCleanup c)),
             ActNothingToCommit, ActTmpFsCleanup])"
    using cloneTemplateDeleteAndPush_nothing_to_commit [of x tr env c triggeredBy gitopsEvent]
    by blast
next
  assume a: "Manifest_Cleanup m = Some c0 \<and>
    Cleanup_ResolveVars x c0 [''BRANCH'' \<mapsto> BranchDeletedEvent_Branch bde] tr = ((None, c), tr1) \<and>
    cleanupTrigger (glob_Compile_ext x) (BranchDeletedEvent_Branch bde) (Some c) = Inr True \<and>
    repoCache_InstanceForWrite x tr1 = None \<and>
    nativeGit_DelDir x (tr1 @ [ActInstanceForWrite])
      (filepath_Join x (Manifest_Env m) (Cleanup_AppToCleanup c)) = None \<and>
    nativeGit_NothingToCommit x
      (tr1 @ [ActInstanceForWrite,
              ActDelDir (filepath_Join x (Manifest_Env m) (Cleanup_AppToCleanup c))]) =
    (True, None)"
  show "processBranchDeletedEvent_loop x gitopsRepo bde (m # rest) deletedEvents tr =
      processBranchDeletedEvent_loop x gitopsRepo bde rest deletedEvents
        (tr1 @ [ActInstanceForWrite,
                ActDelDir (filepath_Join x (Manifest_Env m) (Cleanup_AppToCleanup c)),
                ActNothingToCommit, ActTmpFsCleanup])"
    by (rule processBranchDeletedEvent_loop_skip) (use a in blast)+
next
  assume a: "(\<forall>t. repoCache_InstanceForWrite x t = None) \<and> (\<forall>t p. nativeGit_DelDir x t p = None) \<and>
    (\<forall>t. nativeGit_NothingToCommit x t = (True, None)) \<and>
    Event_Type event = TypeBranchDeleted"
  have q: "commit_messages (snd (processEvent x gitopsRepo event tr)) = commit_messages tr \<and>
         count_list (snd (processEvent x gitopsRepo event tr)) ActPush = count_list tr ActPush \<and>
         (\<forall>event1. fst (processEvent x gitopsRepo event tr) = Inr event1 \<longrightarrow>
            Event_GitopsHashes event1 = Event_GitopsHashes event \<and>
            (Event_Status event1 = StatusProcessed \<longrightarrow>
               delete_events_broadcast (snd (processEvent x gitopsRepo event tr)) =
               delete_events_broadcast tr))"
    by (rule processEvent_branch_deleted_quiet) (use a in blast)+
  from q show "commit_messages (snd (processEvent x gitopsRepo event tr)) = commit_messages tr"
    by blast
  from q show "count_list (snd (processEvent x gitopsRepo event tr)) ActPush = count_list tr ActPush"
    by blast
  from q show "\<forall>event1. fst (processEvent x gitopsRepo event tr) = Inr event1 \<longrightarrow>
            Event_GitopsHashes event1 = Event_GitopsHashes event \<and>
            (Event_Status event1 = StatusProcessed \<longrightarrow>
               delete_events_broadcast (snd (processEvent x gitopsRepo event tr)) =
               delete_events_broadcast tr)"
    by blast
next
  assume "repoCache_InstanceForWrite x tr = None \<and>
    nativeGit_DelDir x (tr @ [ActInstanceForWrite])
      (filepath_Join x env (Cleanup_AppToCleanup c)) = None \<and>
    nativeGit_NothingToCommit x
      (tr @ [ActInstanceForWrite, ActDelDir (filepath_Join x env (Cleanup_AppToCleanup c))]) =
    (False, None)"
  then show "commit_messages (snd (cloneTemplateDeleteAndPush x c env triggeredBy gitopsEvent tr)) =
      commit_messages tr @
      [''[GimletD delete] '' @ env @ ''/'' @ Cleanup_AppToCleanup c @ '' deleted by '' @
       triggeredBy]"
    using cloneTemplateDeleteAndPush_commit_message [of x tr env c triggeredBy gitopsEvent]
    by blast
next
  assume a: "Event_Type event = TypeBranchDeleted \<and>
    json_Unmarshal_BranchDeletedEvent x (Event_Blob event) = Some bde \<and>
    BranchDeletedEvent_Manifests bde = [m] \<and>
    Manifest_Cleanup m = Some c0 \<and>
    Cleanup_ResolveVars x c0 [''BRANCH'' \<mapsto> BranchDeletedEvent_Branch bde]
      (trace_after_token x tr) = ((None, c), tr1) \<and>
    cleanupTrigger (glob_Compile_ext x) (BranchDeletedEvent_Branch bde) (Some c) = Inr True \<and>
    repoCache_InstanceForWrite x tr1 = None \<and>
    nativeGit_DelDir x (tr1 @ [ActInstanceForWrite])
      (filepath_Join x (Manifest_Env m) (Cleanup_AppToCleanup c)) = None \<and>
    nativeGit_NothingToCommit x
      (tr1 @ [ActInstanceForWrite,
              ActDelDir (filepath_Join x (Manifest_Env m) (Cleanup_AppToCleanup c))]) =
    (True, None)"
  show "processEvent x gitopsRepo event tr =
          (Inr (event\<lparr>Event_Status := StatusProcessed\<rparr>),
           tr1 @ [ActInstanceForWrite,
                  ActDelDir (filepath_Join x (Manifest_Env m) (Cleanup_AppToCleanup c)),
                  ActNothingToCommit, ActTmpFsCleanup,
                  ActUpdateEventStatus (Event_ID event) StatusProcessed (Event_StatusDesc event)
                    (json_Marshal (Event_GitopsHashes event))])"
    by (rule processEvent_branch_deleted_nothing_to_commit [where bde = bde and m = m and c = c0])
      (use a in blast)+
qed

theorem cleanup_nothing_to_commit_witness:
  "cloneTemplateDeleteAndPush fixture cleanup_example ''staging'' ''policy''
      \<lparr>DeleteEvent_Env = ''staging'', DeleteEvent_App = ''my-app-feature-x'',
        DeleteEvent_TriggeredBy = ''policy'', DeleteEvent_Status = Success,
        DeleteEvent_StatusDesc = [], DeleteEvent_GitopsRef = [],
        DeleteEvent_GitopsRepo = ''git@example.com:gitops.git''\<rparr> [] =
     ((None, None),
      [ActInstanceForWrite, ActDelDir ''staging/my-app-feature-x'', ActNothingToCommit,
       ActTmpFsCleanup]) \<and>
   processBranchDeletedEvent_loop fixture ''git@example.com:gitops.git'' branch_deleted_many
     [manifest_cleanup_example, Manifest_zero\<lparr>Manifest_Env := ''staging''\<rparr>] [] [] =
     (Inr ([], None),
      [ActTemplateExecute ''my-app-feature-x'', ActInstanceForWrite,
       ActDelDir ''staging/my-app-feature-x'', ActNothingToCommit, ActTmpFsCleanup]) \<and>
   commit_messages (snd (processEvent fixture_branch_deleted_many ''git@example.com:gitops.git''
     event_branch_deleted_example [])) = [] \<and>
   count_list (snd (processEvent fixture_branch_deleted_many ''git@example.com:gitops.git''
     event_branch_deleted_example [])) ActPush = 0 \<and>
   processEvent fixture_branch_deleted ''git@example.com:gitops.git''
     event_branch_deleted_example [] =
     (Inr (event_branch_deleted_example\<lparr>Event_Status := StatusProcessed\<rparr>),
      [ActTemplateExecute ''my-app-feature-x'', ActInstanceForWrite,
       ActDelDir ''staging/my-app-feature-x'', ActNothingToCommit, ActTmpFsCleanup,
       ActUpdateEventStatus ''e2'' StatusProcessed [] JNull]) \<and>
   commit_messages (snd (cloneTemplateDeleteAndPush fixture_tree_changed cleanup_example
      ''staging'' ''policy''
      \<lparr>DeleteEvent_Env = ''staging'', DeleteEvent_App = ''my-app-feature-x'',
        DeleteEvent_TriggeredBy = ''policy'', DeleteEvent_Status = Success,
        DeleteEvent_StatusDesc = [], DeleteEvent_GitopsRef = [],
        DeleteEvent_GitopsRepo = ''git@example.com:gitops.git''\<rparr> [])) =
     [''[GimletD delete] staging/my-app-feature-x deleted by policy'']"
proof -
  have call: "cloneTemplateDeleteAndPush fixture cleanup_example ''staging'' ''policy''
      \<lparr>DeleteEvent_Env = ''staging'', DeleteEvent_App = ''my-app-feature-x'',
        DeleteEvent_TriggeredBy = ''policy'', DeleteEvent_Status = Success,
        DeleteEvent_StatusDesc = [], DeleteEvent_GitopsRef = [],
        DeleteEvent_GitopsRepo = ''git@example.com:gitops.git''\<rparr> [] =
     ((None, None),
      [ActInstanceForWrite, ActDelDir ''staging/my-app-feature-x'', ActNothingToCommit,
       ActTmpFsCleanup])"
    using cleanup_nothing_to_commit [where x = fixture and tr = "[]" and env = "''staging''"
        and c = cleanup_example and triggeredBy = "''policy''"
        and gitopsEvent = "\<lparr>DeleteEvent_Env = ''staging'', DeleteEvent_App = ''my-app-feature-x'',
        DeleteEvent_TriggeredBy = ''policy'', DeleteEvent_Status = Success,
        DeleteEvent_StatusDesc = [], DeleteEvent_GitopsRef = [],
        DeleteEvent_GitopsRepo = ''git@example.com:gitops.git''\<rparr>", THEN conjunct1]
    by (simp add: fixture_branch_deleted_def fixture_branch_deleted_many_def fixture_tree_changed_def
        fixture_def Event_zero_def event_branch_deleted_example_def branch_deleted_example_def
        branch_deleted_many_def manifest_cleanup_example_def cleanup_example_def
        Manifest_zero_def Cleanup_ResolveVars_def trigger_defs json_Marshal_def
        trace_after_token_def)
  have step: "processBranchDeletedEvent_loop fixture ''git@example.com:gitops.git'' branch_deleted_many
     [manifest_cleanup_example, Manifest_zero\<lparr>Manifest_Env := ''staging''\<rparr>] [] [] =
     (Inr ([], None),
      [ActTemplateExecute ''my-app-feature-x'', ActInstanceForWrite,
       ActDelDir ''staging/my-app-feature-x'', ActNothingToCommit, ActTmpFsCleanup])"
    using cleanup_nothing_to_commit [where x = fixture and tr = "[]"
        and m = manifest_cleanup_example and ?c0.0 = cleanup_example and c = cleanup_example
        and bde = branch_deleted_many and ?tr1.0 = "[ActTemplateExecute ''my-app-feature-x'']"
        and gitopsRepo = "''git@example.com:gitops.git''"
        and rest = "[Manifest_zero\<lparr>Manifest_Env := ''staging''\<rparr>]" and deletedEvents = "[]", THEN conjunct2, THEN conjunct1]
    by (simp add: fixture_branch_deleted_def fixture_branch_deleted_many_def fixture_tree_changed_def
        fixture_def Event_zero_def event_branch_deleted_example_def branch_deleted_example_def
        branch_deleted_many_def manifest_cleanup_example_def cleanup_example_def
        Manifest_zero_def Cleanup_ResolveVars_def trigger_defs json_Marshal_def
        trace_after_token_def)
  have event: "commit_messages (snd (processEvent fixture_branch_deleted_many
       ''git@example.com:gitops.git'' event_branch_deleted_example [])) = [] \<and>
     count_list (snd (processEvent fixture_branch_deleted_many ''git@example.com:gitops.git''
       event_branch_deleted_example [])) ActPush = 0"
    using cleanup_nothing_to_commit [where x = fixture_branch_deleted_many and tr = "[]"
        and event = event_branch_deleted_example
        and gitopsRepo = "''git@example.com:gitops.git''", THEN conjunct2, THEN conjunct2, THEN conjunct1]
    by (simp add: fixture_branch_deleted_many_def fixture_def event_branch_deleted_example_def
        Event_zero_def)
  have single: "processEvent fixture_branch_deleted ''git@example.com:gitops.git''
       event_branch_deleted_example [] =
     (Inr (event_branch_deleted_example\<lparr>Event_Status := StatusProcessed\<rparr>),
      [ActTemplateExecute ''my-app-feature-x'', ActInstanceForWrite,
       ActDelDir ''staging/my-app-feature-x'', ActNothingToCommit, ActTmpFsCleanup,
       ActUpdateEventStatus ''e2'' StatusProcessed [] JNull])"
    using cleanup_nothing_to_commit [where x = fixture_branch_deleted and tr = "[]"
        and event = event_branch_deleted_example and bde = branch_deleted_example
        and m = manifest_cleanup_example and ?c0.0 = cleanup_example and c = cleanup_example
        and ?tr1.0 = "[ActTemplateExecute ''my-app-feature-x'']"
        and gitopsRepo = "''git@example.com:gitops.git''", THEN conjunct2, THEN conjunct2, THEN conjunct2, THEN conjunct2]
    by (simp add: fixture_branch_deleted_def fixture_branch_deleted_many_def fixture_tree_changed_def
        fixture_def Event_zero_def event_branch_deleted_example_def branch_deleted_example_def
        branch_deleted_many_def manifest_cleanup_example_def cleanup_example_def
        Manifest_zero_def Cleanup_ResolveVars_def trigger_defs json_Marshal_def
        trace_after_token_def)
  have message: "commit_messages (snd (cloneTemplateDeleteAndPush fixture_tree_changed
       cleanup_example ''staging'' ''policy''
       \<lparr>DeleteEvent_Env = ''staging'', DeleteEvent_App = ''my-app-feature-x'',
        DeleteEvent_TriggeredBy = ''policy'', DeleteEvent_Status = Success,
        DeleteEvent_StatusDesc = [], DeleteEvent_GitopsRef = [],
        DeleteEvent_GitopsRepo = ''git@example.com:gitops.git''\<rparr> [])) =
     [''[GimletD delete] staging/my-app-feature-x deleted by policy'']"
    using cleanup_nothing_to_commit [where x = fixture_tree_changed and tr = "[]"
        and env = "''staging''" and c = cleanup_example and triggeredBy = "''policy''"
        and gitopsEvent = "\<lparr>DeleteEvent_Env = ''staging'', DeleteEvent_App = ''my-app-feature-x'',
        DeleteEvent_TriggeredBy = ''policy'', DeleteEvent_Status = Success,
        DeleteEvent_StatusDesc = [], DeleteEvent_GitopsRef = [],
        DeleteEvent_GitopsRepo = ''git@example.com:gitops.git''\<rparr>", THEN conjunct2, THEN conjunct2, THEN conjunct2, THEN conjunct1]
    by (simp add: fixture_branch_deleted_def fixture_branch_deleted_many_def fixture_tree_changed_def
        fixture_def Event_zero_def event_branch_deleted_example_def branch_deleted_example_def
        branch_deleted_many_def manifest_cleanup_example_def cleanup_example_def
        Manifest_zero_def Cleanup_ResolveVars_def trigger_defs json_Marshal_def
        trace_after_token_def)
  from call step event single message show ?thesis by blast
qed


subsection \<open>Invalid glob patterns\<close>

lemma deployTrigger_branch_panics:
  assumes "compile p = None" and "p \<noteq> []" and "\<not> strings_HasPrefix p ''!''"
  shows "deployTrigger compile a
           (Some \<lparr>Deploy_Tag = [], Deploy_Branch = p, Deploy_Event = Some Push\<rparr>) =
         Inl (MustCompilePanic p)"
  using assms by (simp add: deployTrigger_def deployTrigger_tag_def deployTrigger_branch_def
      glob_MustCompile_def)

lemma deployTrigger_tag_panics:
  assumes "compile p = None" and "p \<noteq> []"
  shows "deployTrigger compile a
           (Some \<lparr>Deploy_Tag = p, Deploy_Branch = [], Deploy_Event = Some Tag\<rparr>) =
         Inl (MustCompilePanic p)"
  using assms by (simp add: deployTrigger_def deployTrigger_tag_def deployTrigger_branch_def
      glob_MustCompile_def Let_def)

lemma cleanupTrigger_panics:
  assumes "compile p = None" and "p \<noteq> []" and "app \<noteq> []"
  shows "cleanupTrigger compile b
           (Some \<lparr>Cleanup_AppToCleanup = app, Cleanup_Event = ev, Cleanup_Branch = p\<rparr>) =
         Inl (MustCompilePanic p)"
  using assms by (simp add: cleanupTrigger_def glob_MustCompile_def Let_def)

lemma processEvent_artifact_panics:
  assumes "Event_Type event = TypeArtifact"
    and "model_ToArtifact x event = Inr a"
    and "Artifact_Environments a = m # rest"
    and "deployTrigger (glob_Compile_ext x) a (Manifest_Deploy m) = Inl p"
  shows "fst (processEvent x gitopsRepo event tr) = Inl p"
  using assms
  by (simp add: processEvent_def processArtifactEvent_def Let_def split: option.splits prod.splits)

lemma processEvent_branch_deleted_panics:
  assumes "Event_Type event = TypeBranchDeleted"
    and "json_Unmarshal_BranchDeletedEvent x (Event_Blob event) = Some bde"
    and "BranchDeletedEvent_Manifests bde = m # rest"
    and "Manifest_Cleanup m = Some c"
    and "fst (Cleanup_ResolveVars x c [''BRANCH'' \<mapsto> BranchDeletedEvent_Branch bde]
                (trace_after_token x tr)) = (None, c1)"
    and "cleanupTrigger (glob_Compile_ext x) (BranchDeletedEvent_Branch bde) (Some c1) = Inl p"
  shows "fst (processEvent x gitopsRepo event tr) = Inl p"
  using assms
  by (cases "Cleanup_ResolveVars x c [''BRANCH'' \<mapsto> BranchDeletedEvent_Branch bde]
               (trace_after_token x tr)")
     (simp add: processEvent_def processBranchDeletedEvent_def trace_after_token_def
        split: option.splits)

lemma Run_pass_panics:
  assumes "store_UnprocessedEvents x tr = Inr (event # events)"
    and "fst (processEvent x gitopsRepo event (tr @ [ActUnprocessedEvents, ActEventsProcessedInc])) = Inl p"
  shows "fst (Run_pass x gitopsRepo tr) = Some p"
  using assms
  by (cases "processEvent x gitopsRepo event (tr @ [ActUnprocessedEvents, ActEventsProcessedInc])")
     (simp add: Run_pass_def)

text \<open>
  Claim C9: the triggers are total only for well-formed globs. Both compile the pattern
  of the policy with \<open>glob.MustCompile\<close>: for a pattern that does not compile, \<open>deployTrigger\<close>
  (on the branch and on the tag of the policy) and \<open>cleanupTrigger\<close> panic instead of
  returning false, and the panic leaves \<open>processEvent\<close> and the pass of the worker loop
  that processes the event. The pattern is taken not to start with an exclamation mark,
  so that the pattern compiled is the pattern of the policy.
\<close>

theorem invalid_glob_panics:
  assumes "glob_Compile_ext x p = None" and "p \<noteq> []" and "\<not> strings_HasPrefix p ''!''"
  shows "deployTrigger (glob_Compile_ext x) a
           (Some \<lparr>Deploy_Tag = [], Deploy_Branch = p, Deploy_Event = Some Push\<rparr>) =
           Inl (MustCompilePanic p) \<and>
         deployTrigger (glob_Compile_ext x) a
           (Some \<lparr>Deploy_Tag = p, Deploy_Branch = [], Deploy_Event = Some Tag\<rparr>) =
           Inl (MustCompilePanic p) \<and>
         (app \<noteq> [] \<longrightarrow>
            cleanupTrigger (glob_Compile_ext x) b
              (Some \<lparr>Cleanup_AppToCleanup = app, Cleanup_Event = ev, Cleanup_Branch = p\<rparr>) =
            Inl (MustCompilePanic p)) \<and>
         (Event_Type event = TypeArtifact \<and> model_ToArtifact x event = Inr a' \<and>
          Artifact_Environments a' = m # rest \<and>
          Manifest_Deploy m = Some \<lparr>Deploy_Tag = [], Deploy_Branch = p, Deploy_Event = Some Push\<rparr> \<and>
          store_UnprocessedEvents x tr = Inr (event # events) \<longrightarrow>
            fst (processEvent x gitopsRepo event tr') = Inl (MustCompilePanic p) \<and>
            fst (Run_pass x gitopsRepo tr) = Some (MustCompilePanic p)) \<and>
         (Event_Type event = TypeBranchDeleted \<and>
          json_Unmarshal_BranchDeletedEvent x (Event_Blob event) = Some bde \<and>
          BranchDeletedEvent_Manifests bde = m # rest \<and> Manifest_Cleanup m = Some c \<and>
          fst (Cleanup_ResolveVars x c [''BRANCH'' \<mapsto> BranchDeletedEvent_Branch bde]
                 (trace_after_token x tr')) =
            (None, \<lparr>Cleanup_AppToCleanup = app, Cleanup_Event = ev, Cleanup_Branch = p\<rparr>) \<and>
          app \<noteq> [] \<longrightarrow>
            fst (processEvent x gitopsRepo event tr') = Inl (MustCompilePanic p))"
proof -
  have branch: "deployTrigger (glob_Compile_ext x) a
      (Some \<lparr>Deploy_Tag = [], Deploy_Branch = p, Deploy_Event = Some Push\<rparr>) =
      Inl (MustCompilePanic p)" for a
    using assms by (rule deployTrigger_branch_panics)
  have tag: "deployTrigger (glob_Compile_ext x) a
      (Some \<lparr>Deploy_Tag = p, Deploy_Branch = [], Deploy_Event = Some Tag\<rparr>) =
      Inl (MustCompilePanic p)"
    using assms(1,2) by (rule deployTrigger_tag_panics)
  have cleanup: "app \<noteq> [] \<Longrightarrow>
      cleanupTrigger (glob_Compile_ext x) b
        (Some \<lparr>Cleanup_AppToCleanup = app, Cleanup_Event = ev, Cleanup_Branch = p\<rparr>) =
      Inl (MustCompilePanic p)" for b
    using assms(1,2) by (rule cleanupTrigger_panics)
  have artifact: "fst (processEvent x gitopsRepo event tr') = Inl (MustCompilePanic p) \<and>
      fst (Run_pass x gitopsRepo tr) = Some (MustCompilePanic p)"
    if "Event_Type event = TypeArtifact" "model_ToArtifact x event = Inr a'"
      "Artifact_Environments a' = m # rest"
      "Manifest_Deploy m = Some \<lparr>Deploy_Tag = [], Deploy_Branch = p, Deploy_Event = Some Push\<rparr>"
      "store_UnprocessedEvents x tr = Inr (event # events)"
  proof -
    have "fst (processEvent x gitopsRepo event t) = Inl (MustCompilePanic p)" for t
      using processEvent_artifact_panics [OF that(1-3), of "MustCompilePanic p"] branch [of a'] that(4)
      by simp
    then show ?thesis using Run_pass_panics [OF that(5)] by simp
  qed
  have deleted: "fst (processEvent x gitopsRepo event tr') = Inl (MustCompilePanic p)"
    if "Event_Type event = TypeBranchDeleted"
      "json_Unmarshal_BranchDeletedEvent x (Event_Blob event) = Some bde"
      "BranchDeletedEvent_Manifests bde = m # rest" "Manifest_Cleanup m = Some c"
      "fst (Cleanup_ResolveVars x c [''BRANCH'' \<mapsto> BranchDeletedEvent_Branch bde]
              (trace_after_token x tr')) =
         (None, \<lparr>Cleanup_AppToCleanup = app, Cleanup_Event = ev, Cleanup_Branch = p\<rparr>)"
      "app \<noteq> []"
    using processEvent_branch_deleted_panics [OF that(1-5)] cleanup [OF that(6)] by simp
  from branch tag cleanup artifact deleted show ?thesis by blast
qed

theorem invalid_glob_panics_witness:
  "deployTrigger glob_Compile Artifact_zero
     (Some \<lparr>Deploy_Tag = [], Deploy_Branch = ''['', Deploy_Event = Some Push\<rparr>) =
     Inl (MustCompilePanic ''['') \<and>
   deployTrigger glob_Compile Artifact_zero
     (Some \<lparr>Deploy_Tag = ''['', Deploy_Branch = [], Deploy_Event = Some Tag\<rparr>) =
     Inl (MustCompilePanic ''['') \<and>
   cleanupTrigger glob_Compile ''feature-x'' (Some cleanup_invalid_glob) =
     Inl (MustCompilePanic ''['') \<and>
   fst (Run_pass fixture_invalid_glob ''git@example.com:gitops.git'' []) =
     Some (MustCompilePanic ''['') \<and>
   fst (processEvent fixture_cleanup_invalid_glob ''git@example.com:gitops.git''
          event_branch_deleted_example []) =
     Inl (MustCompilePanic ''['')"
  using invalid_glob_panics [where x = fixture_invalid_glob and p = "''[''"
      and a = Artifact_zero and app = "''my-app''" and b = "''feature-x''"
      and ev = CleanupBranchDeleted and event = event_artifact_example
      and a' = artifact_invalid_glob
      and m = "Manifest_zero\<lparr>Manifest_Deploy :=
        Some \<lparr>Deploy_Tag = [], Deploy_Branch = ''['', Deploy_Event = Some Push\<rparr>\<rparr>"
      and rest = "[]" and tr = "[]" and events = "[]"
      and gitopsRepo = "''git@example.com:gitops.git''" and tr' = "[]"
      and bde = branch_deleted_example and c = cleanup_example]
    invalid_glob_panics [where x = fixture_cleanup_invalid_glob and p = "''[''"
      and a = Artifact_zero and app = "''my-app''" and b = "''feature-x''"
      and ev = CleanupBranchDeleted and event = event_branch_deleted_example
      and a' = Artifact_zero
      and m = "Manifest_zero\<lparr>Manifest_Env := ''staging'',
                   Manifest_Cleanup := Some cleanup_invalid_glob\<rparr>"
      and rest = "[]" and tr = "[]" and events = "[]"
      and gitopsRepo = "''git@example.com:gitops.git''" and tr' = "[]"
      and bde = "\<lparr>BranchDeletedEvent_Repo = ''owner/repo'', BranchDeletedEvent_Branch = ''feature-x'',
              BranchDeletedEvent_Manifests =
                [Manifest_zero\<lparr>Manifest_Env := ''staging'',
                   Manifest_Cleanup := Some cleanup_invalid_glob\<rparr>]\<rparr>"
      and c = cleanup_invalid_glob]
  by (simp add: fixture_invalid_glob_def fixture_cleanup_invalid_glob_def fixture_def
      glob_Compile_def strings_HasPrefix_def artifact_invalid_glob_def Artifact_zero_def
      event_artifact_example_def event_branch_deleted_example_def Event_zero_def
      cleanup_invalid_glob_def Manifest_zero_def Cleanup_ResolveVars_def trace_after_token_def)


subsection \<open>Release events\<close>








lemma template_executions_append [simp]:
  "template_executions (tr @ tr') = template_executions tr @ template_executions tr'"
  by (simp add: template_executions_def)

lemma template_executions_Nil [simp]: "template_executions [] = []"
  by (simp add: template_executions_def)

lemma template_executions_Cons [simp]:
  "template_executions (a # tr) =
     (case a of ActTemplateExecute t \<Rightarrow> [t] | _ \<Rightarrow> []) @ template_executions tr"
  by (simp add: template_executions_def)


lemma processReleaseEvent_loop_filter:
  "processReleaseEvent_loop x gitopsRepo token a rr envs acc tr =
   processReleaseEvent_loop x gitopsRepo token a rr
     (filter (\<lambda>m. Manifest_Env m = ReleaseRequest_Env rr) envs) acc tr"
proof (induction envs arbitrary: acc tr)
  case Nil
  then show ?case by simp
next
  case (Cons env envs)
  show ?case
  proof (cases "Manifest_Env env = ReleaseRequest_Env rr")
    case False
    with Cons show ?thesis by simp
  next
    case True
    with Cons show ?thesis
      by (simp split: prod.splits sum.splits)
  qed
qed
















end
